theory Spec2Isabelle
  imports Main "HOL-Library.Word"
begin

section \<open>Data model\<close>

type_synonym byte = "8 word"

text \<open>\<^verbatim>\<open>common.Address\<close> is \<^verbatim>\<open>[20]byte\<close>; Go compares two of them bytewise with \<^verbatim>\<open>==\<close>.\<close>

type_synonym Address = "byte list"

text \<open>Every error value the modelled functions return. \<^verbatim>\<open>errors.NewDetailErr\<close> keeps the
  error it wraps, \<^verbatim>\<open>fmt.Errorf\<close> with \<^verbatim>\<open>%v\<close> of an error keeps it too; a Go run-time panic
  (index out of range, nil dereference) is a value of its own.\<close>

datatype error =
    ERR_CHECK_STACK_SIZE
  | ERR_EXECUTE_CODE
  | ERR_GAS_INSUFFICIENT
  | VM_EXEC_STEP_EXCEED
  | CONTRACT_NOT_EXIST
  | DEPLOYCODE_TYPE_ERROR
  | VM_EXEC_FAULT
  | NewErr string
  | NewDetailErr error string
  | Errorf string
  | ErrorfV string error
  | RuntimePanic string

text \<open>Modelled from the spec: the \<^verbatim>\<open>StackItem\<close> tagged union of section 3 (package
  \<^verbatim>\<open>vm/neovm/types\<close> lies outside the files embedded here).\<close>

datatype StackItem =
    Integer int
  | ByteArray "byte list"
  | Boolean bool
  | Array "StackItem list"
  | Struct "StackItem list"
  | Map "(StackItem \<times> StackItem) list"
  | Interop nat

record NotifyEventInfo =
  ContractAddress :: Address
  States :: StackItem

text \<open>Modelled from the spec: the transaction is an abstract collaborator that exposes
  \<^verbatim>\<open>signature_addresses\<close>; the field holds what \<^verbatim>\<open>Tx.GetSignatureAddresses()\<close> returns,
  an error or the list of addresses.\<close>

record Transaction =
  GetSignatureAddresses :: "error + Address list"

text \<open>Modelled from the spec: the frame and the engine of package \<^verbatim>\<open>vm/neovm\<close> (outside the files
  embedded here), with the fields the service reads and writes. A frame is the code
  and the position of its \<^verbatim>\<open>OpReader\<close>; the engine owns the evaluation and alt stacks
  (top of stack first), the frame list, the current frame (nil before the first push),
  the opcode fetched last and the name of its table entry \<^verbatim>\<open>OpExec.Name\<close>. In Go the frame
  list holds pointers and \<^verbatim>\<open>Context\<close> points to one of its frames; the service reads the
  length of the list only, so here the list keeps each frame as it was pushed and the
  reader's position advances in \<open>Context\<close>.\<close>

datatype VMState = NONE | HALT | FAULT | BREAK

record ExecutionContext =
  Code :: "byte list"
  InstructionPointer :: nat

record ExecutionEngine =
  EvaluationStack :: "StackItem list"
  AltStack :: "StackItem list"
  State :: VMState
  Contexts :: "ExecutionContext list"
  Context :: "ExecutionContext option"
  OpCode :: byte
  OpExecName :: string

text \<open>\<^verbatim>\<open>NeoVmService\<close>. Its \<^verbatim>\<open>ContextRef\<close>, \<^verbatim>\<open>CacheDB\<close> and \<^verbatim>\<open>Store\<close> are pointers to objects
  shared by every service of the transaction; they live in the \<^verbatim>\<open>SmartContract\<close> state
  below, which each operation of the service takes and returns.\<close>

record NeoVmService =
  Notifications :: "NotifyEventInfo list"
  Code :: "byte list"
  Tx :: Transaction
  Time :: "32 word"
  Height :: "32 word"
  BlockHash :: "byte list"
  Engine :: ExecutionEngine
  PreExec :: bool

record Context =
  ContractAddress :: Address
  Code :: "byte list"

record Config =
  Time :: "32 word"
  Height :: "32 word"
  BlockHash :: "byte list"
  Tx :: Transaction

text \<open>\<^verbatim>\<open>SmartContract\<close>, the object behind \<^verbatim>\<open>context.ContextRef\<close>. Every service of one
  transaction holds a pointer to the same \<^verbatim>\<open>SmartContract\<close> and to the same \<^verbatim>\<open>CacheDB\<close>,
  so both are threaded through the model as one state; the state cache is kept abstract
  as the type \<open>'db\<close>.\<close>

record 'db SmartContract =
  Contexts :: "Context list"
  CacheDB :: 'db
  Config :: Config
  Notifications :: "NotifyEventInfo list"
  Gas :: "64 word"
  ExecStep :: int
  PreExec :: bool

definition MAX_EXECUTE_ENGINE :: nat where
  "MAX_EXECUTE_ENGINE = 1024"

section \<open>The context stack of \<^verbatim>\<open>SmartContract\<close>\<close>

definition PushContext :: "Context \<Rightarrow> 'db SmartContract \<Rightarrow> 'db SmartContract" where
  "PushContext context this = this\<lparr>Contexts := Contexts this @ [context]\<rparr>"

definition CurrentContext :: "'db SmartContract \<Rightarrow> Context option" where
  "CurrentContext this =
     (if length (Contexts this) < 1 then None
      else Some (Contexts this ! (length (Contexts this) - 1)))"

definition CallingContext :: "'db SmartContract \<Rightarrow> Context option" where
  "CallingContext this =
     (if length (Contexts this) < 2 then None
      else Some (Contexts this ! (length (Contexts this) - 2)))"

definition EntryContext :: "'db SmartContract \<Rightarrow> Context option" where
  "EntryContext this =
     (if length (Contexts this) < 1 then None
      else Some (Contexts this ! 0))"

definition PopContext :: "'db SmartContract \<Rightarrow> 'db SmartContract" where
  "PopContext this =
     (if length (Contexts this) > 1
      then this\<lparr>Contexts := take (length (Contexts this) - 1) (Contexts this)\<rparr>
      else this)"

definition PushNotifications ::
    "NotifyEventInfo list \<Rightarrow> 'db SmartContract \<Rightarrow> 'db SmartContract" where
  "PushNotifications notifications this =
     this\<lparr>SmartContract.Notifications := SmartContract.Notifications this @ notifications\<rparr>"

text \<open>\<^verbatim>\<open>CheckExecStep\<close> and \<^verbatim>\<open>CheckUseGas\<close> return the flag and the updated object.
  \<^verbatim>\<open>neovm.VM_STEP_LIMIT\<close> is declared outside the files embedded here and is a parameter.\<close>

definition CheckExecStep :: "int \<Rightarrow> 'db SmartContract \<Rightarrow> bool \<times> 'db SmartContract" where
  "CheckExecStep VM_STEP_LIMIT this =
     (if ExecStep this \<ge> VM_STEP_LIMIT then (False, this)
      else (True, this\<lparr>ExecStep := ExecStep this + 1\<rparr>))"

definition CheckUseGas :: "64 word \<Rightarrow> 'db SmartContract \<Rightarrow> bool \<times> 'db SmartContract" where
  "CheckUseGas gas this =
     (if Gas this < gas then (False, this)
      else (True, this\<lparr>Gas := Gas this - gas\<rparr>))"

definition checkContexts :: "'db SmartContract \<Rightarrow> bool" where
  "checkContexts this =
     (if length (Contexts this) > MAX_EXECUTE_ENGINE then False else True)"

section \<open>\<^verbatim>\<open>CheckWitness\<close>\<close>

text \<open>The \<^verbatim>\<open>range\<close> loop of \<^verbatim>\<open>checkAccountAddress\<close>, returning at the first match.\<close>

fun rangeAddresses :: "Address list \<Rightarrow> Address \<Rightarrow> bool" where
  "rangeAddresses [] address = False"
| "rangeAddresses (v # addresses) address =
     (if v = address then True else rangeAddresses addresses address)"

definition checkAccountAddress :: "'db SmartContract \<Rightarrow> Address \<Rightarrow> bool" where
  "checkAccountAddress this address =
     (case GetSignatureAddresses (Tx (Config this)) of
        Inl err \<Rightarrow> False
      | Inr addresses \<Rightarrow> rangeAddresses addresses address)"

definition checkContractAddress :: "'db SmartContract \<Rightarrow> Address \<Rightarrow> bool" where
  "checkContractAddress this address =
     (case CallingContext this of
        None \<Rightarrow> False
      | Some c \<Rightarrow> if Context.ContractAddress c = address then True else False)"

definition CheckWitness :: "'db SmartContract \<Rightarrow> Address \<Rightarrow> bool" where
  "CheckWitness this address =
     (if checkAccountAddress this address \<or> checkContractAddress this address
      then True else False)"

section \<open>The identity-contract helpers \<^verbatim>\<open>encodeID\<close> and \<^verbatim>\<open>decodeID\<close>\<close>

text \<open>\<^verbatim>\<open>utils.OntIDContractAddress\<close> is a constant of type \<^verbatim>\<open>common.Address\<close> declared outside
  the files embedded here; both helpers take it as the parameter \<open>OntIDContractAddress\<close>.
  \<^verbatim>\<open>byte(length)\<close> truncates to eight bits, \<^verbatim>\<open>int(data[prefix])\<close> reads the byte unsigned.
  Go evaluates \<^verbatim>\<open>||\<close> left to right, so \<^verbatim>\<open>data[prefix]\<close> is read whenever
  \<^verbatim>\<open>size < prefix\<close> is false, and panics when \<^verbatim>\<open>size = prefix\<close>.\<close>

definition encodeID :: "byte list \<Rightarrow> byte list \<Rightarrow> error + byte list" where
  "encodeID OntIDContractAddress id' =
     (let length' = length id' in
      if length' = 0 \<or> length' > 255
      then Inl (NewErr ''encode ID error: invalid ID length'')
      else let enc = OntIDContractAddress @ [of_nat length' :: byte];
               enc = enc @ id'
           in Inr enc)"

definition decodeID :: "byte list \<Rightarrow> byte list \<Rightarrow> error + byte list" where
  "decodeID OntIDContractAddress data =
     (let prefix = length OntIDContractAddress;
          size' = length data
      in if size' < prefix then Inl (NewErr ''decode ID error: invalid data length'')
         else if \<not> prefix < size' then Inl (RuntimePanic ''index out of range'')
         else if size' \<noteq> unat (data ! prefix) + 1 + prefix
           then Inl (NewErr ''decode ID error: invalid data length'')
         else Inr (drop (prefix + 1) data))"

section \<open>The engine as \<^verbatim>\<open>NeoVmService\<close> uses it\<close>

text \<open>Modelled from the spec: the opcode byte values that \<^verbatim>\<open>neovm_service.go\<close> names (they are
  part of the wire protocol; \<^verbatim>\<open>vm/neovm/opcode.go\<close> lies outside the files embedded here),
  and the stack limit of 2048 items, \<^verbatim>\<open>DUPLICATE_STACK_SIZE\<close>. \<^verbatim>\<open>vm.OpCode\<close> is a byte, compared
  unsigned.\<close>

definition PUSHBYTES1 :: byte where "PUSHBYTES1 = 0x01"
definition PUSHBYTES75 :: byte where "PUSHBYTES75 = 0x4B"
definition PUSH16 :: byte where "PUSH16 = 0x60"
definition APPCALL :: byte where "APPCALL = 0x67"
definition SYSCALL :: byte where "SYSCALL = 0x68"
definition DEPTH :: byte where "DEPTH = 0x74"
definition DUP :: byte where "DUP = 0x76"
definition OVER :: byte where "OVER = 0x78"
definition TUCK :: byte where "TUCK = 0x7D"
definition VERIFY :: byte where "VERIFY = 0xAD"
definition UNPACK :: byte where "UNPACK = 0xC2"

definition DUPLICATE_STACK_SIZE :: nat where
  "DUPLICATE_STACK_SIZE = 2048"

definition BYTE_ZERO_20 :: "byte list" where
  "BYTE_ZERO_20 = [0, 0, 0, 0, 0, 0, 0, 0, 0, 0, 0, 0, 0, 0, 0, 0, 0, 0, 0, 0]"

text \<open>Modelled from the spec: the stack and frame plumbing of \<^verbatim>\<open>vm/neovm\<close>. A stack is a list
  with its top first: \<^verbatim>\<open>Count\<close> is the length, \<^verbatim>\<open>Peek(0)\<close> the head, \<^verbatim>\<open>PushData\<close> conses,
  \<^verbatim>\<open>CopyTo\<close> puts the items of the source on top of the target's, a new engine has empty
  stacks and no frame, a new frame starts at position 0.\<close>

definition EvaluationStackCount :: "ExecutionEngine \<Rightarrow> nat" where
  "EvaluationStackCount engine = length (EvaluationStack engine)"

definition PushData :: "ExecutionEngine \<Rightarrow> StackItem \<Rightarrow> ExecutionEngine" where
  "PushData engine data = engine\<lparr>EvaluationStack := data # EvaluationStack engine\<rparr>"

definition CopyTo :: "StackItem list \<Rightarrow> ExecutionEngine \<Rightarrow> ExecutionEngine" where
  "CopyTo source engine = engine\<lparr>EvaluationStack := source @ EvaluationStack engine\<rparr>"

definition NewExecutionEngine :: ExecutionEngine where
  "NewExecutionEngine =
     \<lparr>EvaluationStack = [], AltStack = [], State = BREAK, Contexts = [], Context = None,
      OpCode = 0, OpExecName = []\<rparr>"

definition NewExecutionContext :: "byte list \<Rightarrow> ExecutionContext" where
  "NewExecutionContext code = \<lparr>ExecutionContext.Code = code, InstructionPointer = 0\<rparr>"

definition EnginePushContext :: "ExecutionContext \<Rightarrow> ExecutionEngine \<Rightarrow> ExecutionEngine" where
  "EnginePushContext ctx engine =
     engine\<lparr>ExecutionEngine.Contexts := ExecutionEngine.Contexts engine @ [ctx],
            Context := Some ctx\<rparr>"

text \<open>A registered service: its effect, which receives the service (with the engine) and the
  shared \<^verbatim>\<open>SmartContract\<close> and returns an error or both updated, and its optional validator,
  which inspects the engine. Every error return of the modelled code ends \<^verbatim>\<open>Invoke\<close> with
  that error and the caller drops the objects, so an error carries no state.\<close>

record 'db Service =
  Execute :: "NeoVmService \<Rightarrow> 'db SmartContract \<Rightarrow> error + (NeoVmService \<times> 'db SmartContract)"
  Validator :: "(ExecutionEngine \<Rightarrow> error option) option"

text \<open>What \<^verbatim>\<open>neovm_service.go\<close> calls and the files embedded here do not contain is a parameter
  of the model, collected in one record: the interpreter (\<^verbatim>\<open>ExecuteCode\<close>, \<^verbatim>\<open>ValidateOp\<close>,
  \<^verbatim>\<open>StepInto\<close>), the gas schedule, the operand reader of the current frame, the conversion
  of a stack item to bytes, the two cryptographic functions, the address functions, the
  contract lookup of the state cache, the service table and three constants. Every
  theorem below holds for all values of these parameters.\<close>

record ('db, 'key) Deps =
  ExecuteCode :: "ExecutionEngine \<Rightarrow> error + ExecutionEngine"
  ValidateOp :: "ExecutionEngine \<Rightarrow> error + ExecutionEngine"
  StepInto :: "ExecutionEngine \<Rightarrow> error + ExecutionEngine"
  GasPrice :: "ExecutionEngine \<Rightarrow> string \<Rightarrow> error + 64 word"
  ReadBytes :: "ExecutionEngine \<Rightarrow> nat \<Rightarrow> error + (byte list \<times> ExecutionEngine)"
  ReadVarString :: "ExecutionEngine \<Rightarrow> nat \<Rightarrow> error + (string \<times> ExecutionEngine)"
  GetByteArray :: "StackItem \<Rightarrow> error + byte list"
  DeserializePublicKey :: "byte list \<Rightarrow> error + 'key"
  SignatureVerify :: "'key \<Rightarrow> byte list \<Rightarrow> byte list \<Rightarrow> error option"
  AddressFromVmCode :: "byte list \<Rightarrow> Address"
  AddressParseFromBytes :: "byte list \<Rightarrow> error + Address"
  GetContract :: "'db \<Rightarrow> Address \<Rightarrow> error + byte list option"
  ServiceMap :: "string \<Rightarrow> 'db Service option"
  OPCODE_GAS :: "64 word"
  VM_STEP_LIMIT :: int
  MAX_BYTEARRAY_SIZE :: nat

text \<open>\<^verbatim>\<open>vm.PopByteArray\<close>: pop the top item and convert it. The service calls it only after
  checking the stack count; on an empty stack the pop yields nil and the conversion
  dereferences it.\<close>

definition PopByteArray ::
    "('db, 'key) Deps \<Rightarrow> ExecutionEngine \<Rightarrow> error + (byte list \<times> ExecutionEngine)" where
  "PopByteArray D engine =
     (case EvaluationStack engine of
        [] \<Rightarrow> Inl (RuntimePanic ''nil stack item'')
      | x # rest \<Rightarrow>
          (case GetByteArray D x of
             Inl err \<Rightarrow> Inl err
           | Inr bs \<Rightarrow> Inr (bs, engine\<lparr>EvaluationStack := rest\<rparr>)))"

section \<open>\<^verbatim>\<open>SmartContract.NewExecuteEngine\<close>\<close>

definition NewExecuteEngine :: "'db SmartContract \<Rightarrow> byte list \<Rightarrow> error + NeoVmService" where
  "NewExecuteEngine this code =
     (if \<not> checkContexts this then Inl (Errorf ''engine over max limit!'')
      else Inr \<lparr>NeoVmService.Notifications = [],
                NeoVmService.Code = code,
                NeoVmService.Tx = Tx (Config this),
                NeoVmService.Time = Time (Config this),
                NeoVmService.Height = Height (Config this),
                NeoVmService.BlockHash = BlockHash (Config this),
                Engine = NewExecutionEngine,
                NeoVmService.PreExec = PreExec this\<rparr>)"

section \<open>\<^verbatim>\<open>checkStackSize\<close>, \<^verbatim>\<open>getContract\<close> and \<^verbatim>\<open>SystemCall\<close>\<close>

definition checkStackSize :: "ExecutionEngine \<Rightarrow> bool" where
  "checkStackSize engine =
     (let total = (\<lambda>size. if size + (length (EvaluationStack engine) + length (AltStack engine))
                              > DUPLICATE_STACK_SIZE
                           then False else True)
      in if OpCode engine < PUSH16 then total 1
         else if OpCode engine = DEPTH \<or> OpCode engine = DUP \<or> OpCode engine = OVER
                 \<or> OpCode engine = TUCK then total 1
         else if OpCode engine = UNPACK then
           (case EvaluationStack engine of
              [] \<Rightarrow> False
            | Array a # rest \<Rightarrow> total (length a)
            | Struct a # rest \<Rightarrow> total (length a)
            | item # rest \<Rightarrow> total 0)
         else total 0)"

text \<open>What \<^verbatim>\<open>checkStackSize\<close> computes: the charge is 1 for the opcodes strictly below
  \<^verbatim>\<open>PUSH16\<close> and for \<^verbatim>\<open>DEPTH\<close>, \<^verbatim>\<open>DUP\<close>, \<^verbatim>\<open>OVER\<close>, \<^verbatim>\<open>TUCK\<close>, the element count for \<^verbatim>\<open>UNPACK\<close> of an
  array or struct, 0 otherwise (also for \<^verbatim>\<open>PUSH16\<close> itself); \<^verbatim>\<open>UNPACK\<close> on an empty stack
  fails the check.\<close>

definition charge :: "ExecutionEngine \<Rightarrow> nat" where
  "charge engine =
     (if OpCode engine < PUSH16 \<or> OpCode engine \<in> {DEPTH, DUP, OVER, TUCK} then 1
      else if OpCode engine = UNPACK then
        (case EvaluationStack engine of
           Array a # rest \<Rightarrow> length a
         | Struct a # rest \<Rightarrow> length a
         | _ \<Rightarrow> 0)
      else 0)"

definition getContract ::
    "('db, 'key) Deps \<Rightarrow> 'db SmartContract \<Rightarrow> Address \<Rightarrow> error + byte list" where
  "getContract D sc address =
     (case GetContract D (CacheDB sc) address of
        Inl err \<Rightarrow> Inl (NewErr ''[getContract] get contract context error!'')
      | Inr None \<Rightarrow> Inl CONTRACT_NOT_EXIST
      | Inr (Some code) \<Rightarrow> Inr code)"

definition SystemCall ::
    "('db, 'key) Deps \<Rightarrow> NeoVmService \<Rightarrow> 'db SmartContract
       \<Rightarrow> error + (NeoVmService \<times> 'db SmartContract)" where
  "SystemCall D this sc =
     (case ReadVarString D (Engine this) (MAX_BYTEARRAY_SIZE D) of
        Inl err \<Rightarrow> Inl err
      | Inr (serviceName, engine) \<Rightarrow>
          (case ServiceMap D serviceName of
             None \<Rightarrow> Inl (NewErr (''[SystemCall] the given service is not supported: '' @ serviceName))
           | Some service \<Rightarrow>
               (case (case Validator service of None \<Rightarrow> None | Some validator \<Rightarrow> validator engine) of
                  Some err \<Rightarrow> Inl (NewDetailErr err ''[SystemCall] there was a service validator error!'')
                | None \<Rightarrow>
                    (case GasPrice D engine serviceName of
                       Inl err \<Rightarrow> Inl err
                     | Inr price \<Rightarrow>
                         (let (ok, sc) = CheckUseGas price sc in
                          if \<not> ok then Inl ERR_GAS_INSUFFICIENT
                          else (case Execute service (this\<lparr>Engine := engine\<rparr>) sc of
                                  Inl err \<Rightarrow> Inl (NewDetailErr err ''[SystemCall] service execution error!'')
                                | Inr r \<Rightarrow> Inr r))))))"

section \<open>\<^verbatim>\<open>NeoVmService.Invoke\<close>\<close>

text \<open>The body of one loop iteration is split along the source: the stack check after
  \<^verbatim>\<open>ExecuteCode\<close> (lines 154-158), the gas charge (159-174) and the three special cases and
  the default of the opcode switch (175-249).\<close>

definition Invoke_checkStack :: "ExecutionEngine \<Rightarrow> error option" where
  "Invoke_checkStack engine =
     (case ExecutionEngine.Context engine of
        None \<Rightarrow> Some (RuntimePanic ''nil context'')
      | Some ctx \<Rightarrow>
          if InstructionPointer ctx < length (ExecutionContext.Code ctx)
          then (if \<not> checkStackSize engine then Some ERR_CHECK_STACK_SIZE else None)
          else None)"

definition Invoke_gas ::
    "('db, 'key) Deps \<Rightarrow> ExecutionEngine \<Rightarrow> 'db SmartContract
       \<Rightarrow> error + (ExecutionEngine \<times> 'db SmartContract)" where
  "Invoke_gas D engine sc =
     (if OpCode engine \<ge> PUSHBYTES1 \<and> OpCode engine \<le> PUSHBYTES75 then
        (let (ok, sc) = CheckUseGas (OPCODE_GAS D) sc in
         if \<not> ok then Inl ERR_GAS_INSUFFICIENT else Inr (engine, sc))
      else
        (case ValidateOp D engine of
           Inl err \<Rightarrow> Inl err
         | Inr engine \<Rightarrow>
             (case GasPrice D engine (OpExecName engine) of
                Inl err \<Rightarrow> Inl err
              | Inr price \<Rightarrow>
                  (let (ok, sc) = CheckUseGas price sc in
                   if \<not> ok then Inl ERR_GAS_INSUFFICIENT else Inr (engine, sc)))))"

definition Invoke_VERIFY :: "('db, 'key) Deps \<Rightarrow> ExecutionEngine \<Rightarrow> error + ExecutionEngine" where
  "Invoke_VERIFY D engine =
     (if EvaluationStackCount engine < 3 then Inl (NewErr ''[VERIFY] too few input parameters'')
      else
        (case PopByteArray D engine of
           Inl err \<Rightarrow> Inl err
         | Inr (pubKey, engine) \<Rightarrow>
        (case DeserializePublicKey D pubKey of
           Inl err \<Rightarrow> Inl err
         | Inr key \<Rightarrow>
        (case PopByteArray D engine of
           Inl err \<Rightarrow> Inl err
         | Inr (sig, engine) \<Rightarrow>
        (case PopByteArray D engine of
           Inl err \<Rightarrow> Inl err
         | Inr (data, engine) \<Rightarrow>
        (case SignatureVerify D key data sig of
           Some err \<Rightarrow> Inr (PushData engine (Boolean False))
         | None \<Rightarrow> Inr (PushData engine (Boolean True))))))))"

text \<open>The first half of the \<^verbatim>\<open>APPCALL\<close> case (lines 206-229): the target address, from the
  operand or from the stack, and the code of the contract deployed there.\<close>

definition Invoke_APPCALL_target ::
    "('db, 'key) Deps \<Rightarrow> ExecutionEngine \<Rightarrow> 'db SmartContract
       \<Rightarrow> error + (byte list \<times> ExecutionEngine)" where
  "Invoke_APPCALL_target D engine sc =
     (case ReadBytes D engine 20 of
        Inl err \<Rightarrow> Inl (ErrorfV ''[Appcall] read contract address error: %v'' err)
      | Inr (address, engine) \<Rightarrow>
        (case (if address = BYTE_ZERO_20 then
                 (if EvaluationStackCount engine < 1
                  then Inl (Errorf ''[Appcall] too few input parameters: %d'')
                  else (case PopByteArray D engine of
                          Inl err \<Rightarrow> Inl (ErrorfV ''[Appcall] pop contract address error: %v'' err)
                        | Inr (address, engine) \<Rightarrow>
                            if length address \<noteq> 20
                            then Inl (Errorf ''[Appcall] pop contract address len != 20: %x'')
                            else Inr (address, engine)))
               else Inr (address, engine)) of
           Inl err \<Rightarrow> Inl err
         | Inr (address, engine) \<Rightarrow>
        (case AddressParseFromBytes D address of
           Inl err \<Rightarrow> Inl err
         | Inr addr \<Rightarrow>
        (case getContract D sc addr of
           Inl err \<Rightarrow> Inl err
         | Inr code \<Rightarrow> Inr (code, engine)))))"

text \<open>The second half (lines 230-241): the child service, the copy of the evaluation stack,
  the nested \<^verbatim>\<open>Invoke\<close> (the argument \<open>invoke\<close>, which may run out of fuel) and the push of
  its result.\<close>

definition Invoke_APPCALL ::
    "('db, 'key) Deps
       \<Rightarrow> (NeoVmService \<Rightarrow> 'db SmartContract \<Rightarrow> (error + (StackItem option \<times> 'db SmartContract)) option)
       \<Rightarrow> NeoVmService \<Rightarrow> 'db SmartContract
       \<Rightarrow> (error + (NeoVmService \<times> 'db SmartContract)) option" where
  "Invoke_APPCALL D invoke this sc =
     (case Invoke_APPCALL_target D (Engine this) sc of
        Inl err \<Rightarrow> Some (Inl err)
      | Inr (code, engine) \<Rightarrow>
        (case NewExecuteEngine sc code of
           Inl err \<Rightarrow> Some (Inl err)
         | Inr service \<Rightarrow>
           (let service = service\<lparr>Engine := CopyTo (EvaluationStack engine) (Engine service)\<rparr> in
            case invoke service sc of
              None \<Rightarrow> None
            | Some (Inl err) \<Rightarrow> Some (Inl err)
            | Some (Inr (result, sc)) \<Rightarrow>
                (case result of
                   None \<Rightarrow> Some (Inr (this\<lparr>Engine := engine\<rparr>, sc))
                 | Some item \<Rightarrow> Some (Inr (this\<lparr>Engine := PushData engine item\<rparr>, sc))))))"

definition Invoke_default :: "('db, 'key) Deps \<Rightarrow> ExecutionEngine \<Rightarrow> error + ExecutionEngine" where
  "Invoke_default D engine =
     (case StepInto D engine of
        Inl err \<Rightarrow> Inl (NewDetailErr err ''[NeoVmService] vm execution error!'')
      | Inr engine \<Rightarrow> if State engine = FAULT then Inl VM_EXEC_FAULT else Inr engine)"

definition Invoke_switch ::
    "('db, 'key) Deps
       \<Rightarrow> (NeoVmService \<Rightarrow> 'db SmartContract \<Rightarrow> (error + (StackItem option \<times> 'db SmartContract)) option)
       \<Rightarrow> NeoVmService \<Rightarrow> 'db SmartContract
       \<Rightarrow> (error + (NeoVmService \<times> 'db SmartContract)) option" where
  "Invoke_switch D invoke this sc =
     (if OpCode (Engine this) = VERIFY then
        (case Invoke_VERIFY D (Engine this) of
           Inl err \<Rightarrow> Some (Inl err)
         | Inr engine \<Rightarrow> Some (Inr (this\<lparr>Engine := engine\<rparr>, sc)))
      else if OpCode (Engine this) = SYSCALL then
        (case SystemCall D this sc of
           Inl err \<Rightarrow> Some (Inl (NewDetailErr err ''[NeoVmService] service system call error!''))
         | Inr r \<Rightarrow> Some (Inr r))
      else if OpCode (Engine this) = APPCALL then Invoke_APPCALL D invoke this sc
      else
        (case Invoke_default D (Engine this) of
           Inl err \<Rightarrow> Some (Inl err)
         | Inr engine \<Rightarrow> Some (Inr (this\<lparr>Engine := engine\<rparr>, sc))))"

text \<open>One pass through the body of the \<^verbatim>\<open>for\<close> loop (lines 141-249): either the loop is
  left (\<open>LoopBreak\<close>), or an opcode has been executed (\<open>LoopNext\<close>), or \<^verbatim>\<open>Invoke\<close> returns an
  error.\<close>

datatype 'a LoopStep = LoopBreak 'a | LoopNext 'a

definition Invoke_iteration ::
    "('db, 'key) Deps
       \<Rightarrow> (NeoVmService \<Rightarrow> 'db SmartContract \<Rightarrow> (error + (StackItem option \<times> 'db SmartContract)) option)
       \<Rightarrow> NeoVmService \<Rightarrow> 'db SmartContract
       \<Rightarrow> (error + (NeoVmService \<times> 'db SmartContract) LoopStep) option" where
  "Invoke_iteration D invoke this sc =
     (let (ok, sc) = (if NeoVmService.PreExec this then CheckExecStep (VM_STEP_LIMIT D) sc
                      else (True, sc)) in
      if \<not> ok then Some (Inl VM_EXEC_STEP_EXCEED)
      else
        (case ExecutionEngine.Context (Engine this) of
           None \<Rightarrow> Some (Inr (LoopBreak (this, sc)))
         | Some ctx \<Rightarrow>
             if length (ExecutionEngine.Contexts (Engine this)) = 0
             then Some (Inr (LoopBreak (this, sc)))
             else if InstructionPointer ctx \<ge> length (ExecutionContext.Code ctx)
             then Some (Inr (LoopBreak (this, sc)))
             else
               (case ExecuteCode D (Engine this) of
                  Inl err \<Rightarrow> Some (Inl err)
                | Inr engine \<Rightarrow>
                    (case Invoke_checkStack engine of
                       Some err \<Rightarrow> Some (Inl err)
                     | None \<Rightarrow>
                         (case Invoke_gas D engine sc of
                            Inl err \<Rightarrow> Some (Inl err)
                          | Inr (engine, sc) \<Rightarrow>
                              (case Invoke_switch D invoke (this\<lparr>Engine := engine\<rparr>) sc of
                                 None \<Rightarrow> None
                               | Some (Inl err) \<Rightarrow> Some (Inl err)
                               | Some (Inr r) \<Rightarrow> Some (Inr (LoopNext r))))))))"

text \<open>\<^verbatim>\<open>Invoke\<close> around its loop: the entry (lines 135-139), the loop \<open>loop\<close>, and the exit
  (lines 251-256). The result is the top of the evaluation stack or nil.\<close>

definition Invoke_frame ::
    "('db, 'key) Deps
       \<Rightarrow> (NeoVmService \<Rightarrow> 'db SmartContract \<Rightarrow> (error + (NeoVmService \<times> 'db SmartContract)) option)
       \<Rightarrow> NeoVmService \<Rightarrow> 'db SmartContract
       \<Rightarrow> (error + (StackItem option \<times> 'db SmartContract)) option" where
  "Invoke_frame D loop this sc =
     (if length (NeoVmService.Code this) = 0 then Some (Inl ERR_EXECUTE_CODE)
      else
        (let sc = PushContext \<lparr>ContractAddress = AddressFromVmCode D (NeoVmService.Code this),
                                Code = NeoVmService.Code this\<rparr> sc;
             this = this\<lparr>Engine := EnginePushContext (NewExecutionContext (NeoVmService.Code this))
                                      (Engine this)\<rparr>
         in case loop this sc of
              None \<Rightarrow> None
            | Some (Inl err) \<Rightarrow> Some (Inl err)
            | Some (Inr (this, sc)) \<Rightarrow>
                (let sc = PopContext sc;
                     sc = PushNotifications (NeoVmService.Notifications this) sc
                 in if length (EvaluationStack (Engine this)) \<noteq> 0
                    then Some (Inr (Some (hd (EvaluationStack (Engine this))), sc))
                    else Some (Inr (None, sc)))))"

text \<open>The loop and the nested calls may go on for ever (in consensus mode only gas stops
  them, and a price may be 0), so both run on fuel: \<open>None\<close> is "not finished within \<open>n\<close>
  iterations and nesting levels".\<close>

primrec Invoke_loop ::
    "('db, 'key) Deps \<Rightarrow> nat \<Rightarrow> NeoVmService \<Rightarrow> 'db SmartContract
       \<Rightarrow> (error + (NeoVmService \<times> 'db SmartContract)) option" where
  "Invoke_loop D 0 this sc = None"
| "Invoke_loop D (Suc n) this sc =
     (case Invoke_iteration D (Invoke_frame D (Invoke_loop D n)) this sc of
        None \<Rightarrow> None
      | Some (Inl err) \<Rightarrow> Some (Inl err)
      | Some (Inr (LoopBreak (this, sc))) \<Rightarrow> Some (Inr (this, sc))
      | Some (Inr (LoopNext (this, sc))) \<Rightarrow> Invoke_loop D n this sc)"

definition Invoke ::
    "('db, 'key) Deps \<Rightarrow> nat \<Rightarrow> NeoVmService \<Rightarrow> 'db SmartContract
       \<Rightarrow> (error + (StackItem option \<times> 'db SmartContract)) option" where
  "Invoke D n = Invoke_frame D (Invoke_loop D n)"

text \<open>Modelled from the spec: the effect and the validator of \<^verbatim>\<open>Runtime.Notify\<close>
  (\<^verbatim>\<open>RuntimeNotify\<close> and \<^verbatim>\<open>validatorNotify\<close> of the service table, outside the files embedded
  here). The validator asks for one item on the evaluation stack; the effect pops it and
  buffers the event \<open>(contract, payload)\<close> of the current context in the \<^verbatim>\<open>Notifications\<close>
  of the service, the buffer that \<^verbatim>\<open>Invoke\<close> hands to \<^verbatim>\<open>PushNotifications\<close> on line 252.\<close>

definition validatorNotify :: "ExecutionEngine \<Rightarrow> error option" where
  "validatorNotify engine =
     (if EvaluationStackCount engine < 1
      then Some (NewErr ''[validatorNotify] too few input parameters'') else None)"

definition RuntimeNotify ::
    "NeoVmService \<Rightarrow> 'db SmartContract \<Rightarrow> error + (NeoVmService \<times> 'db SmartContract)" where
  "RuntimeNotify service sc =
     (case EvaluationStack (Engine service) of
        [] \<Rightarrow> Inl (RuntimePanic ''nil stack item'')
      | item # rest \<Rightarrow>
          (case CurrentContext sc of
             None \<Rightarrow> Inl (RuntimePanic ''nil context'')
           | Some context \<Rightarrow>
               Inr (service\<lparr>Engine := (Engine service)\<lparr>EvaluationStack := rest\<rparr>,
                            NeoVmService.Notifications := NeoVmService.Notifications service
                              @ [\<lparr>NotifyEventInfo.ContractAddress = ContractAddress context,
                                  States = item\<rparr>]\<rparr>, sc)))"

section \<open>What a run does to the notification buffers, call by call\<close>

text \<open>The definitions of this section are not taken from the source: they describe a run
  from outside, so that the order of the notifications can be stated. A frame's run is
  a list of actions, in the order the loop performs them: a \<^verbatim>\<open>Runtime.Notify\<close> call with
  its event (\<open>Emit\<close>), a call of another service with what it appended to the
  transaction's list (\<open>Pushed\<close>), and an \<^verbatim>\<open>APPCALL\<close> with the actions of the callee's frame
  (\<open>Call\<close>). \<open>buffered\<close> is what an action adds to the frame's own buffer, \<open>flushed\<close>
  what it adds to the transaction's list at once (for a call: the callee's list
  additions followed by the callee's buffer), and \<open>emitted\<close> lists the events of an
  action in the order of their emission.\<close>

datatype action = Emit NotifyEventInfo | Pushed "NotifyEventInfo list" | Call "action list"

fun buffered :: "action \<Rightarrow> NotifyEventInfo list" where
  "buffered (Emit e) = [e]"
| "buffered (Pushed es) = []"
| "buffered (Call as) = []"

fun flushed :: "action \<Rightarrow> NotifyEventInfo list" where
  "flushed (Emit e) = []"
| "flushed (Pushed es) = es"
| "flushed (Call as) = concat (map flushed as) @ concat (map buffered as)"

fun emitted :: "action \<Rightarrow> NotifyEventInfo list" where
  "emitted (Emit e) = [e]"
| "emitted (Pushed es) = es"
| "emitted (Call as) = concat (map emitted as)"

text \<open>The service and the state with which the loop of \<^verbatim>\<open>Invoke\<close> starts (lines 138-139).\<close>

definition Invoke_enter ::
    "('db, 'key) Deps \<Rightarrow> NeoVmService \<Rightarrow> 'db SmartContract \<Rightarrow> NeoVmService \<times> 'db SmartContract" where
  "Invoke_enter D this sc =
     (this\<lparr>Engine := EnginePushContext (NewExecutionContext (NeoVmService.Code this)) (Engine this)\<rparr>,
      PushContext \<lparr>ContractAddress = AddressFromVmCode D (NeoVmService.Code this),
                    Code = NeoVmService.Code this\<rparr> sc)"

text \<open>The service and the state in which the opcode switch of an iteration runs: the part
  of \<open>Invoke_iteration\<close> before the switch (lines 141-174); \<open>None\<close> when the iteration
  leaves the loop or returns an error before the switch.\<close>

definition Invoke_fetch ::
    "('db, 'key) Deps \<Rightarrow> NeoVmService \<Rightarrow> 'db SmartContract \<Rightarrow> (NeoVmService \<times> 'db SmartContract) option" where
  "Invoke_fetch D this sc =
     (let (ok, sc) = (if NeoVmService.PreExec this then CheckExecStep (VM_STEP_LIMIT D) sc
                      else (True, sc)) in
      if \<not> ok then None
      else
        (case ExecutionEngine.Context (Engine this) of
           None \<Rightarrow> None
         | Some ctx \<Rightarrow>
             if length (ExecutionEngine.Contexts (Engine this)) = 0 then None
             else if InstructionPointer ctx \<ge> length (ExecutionContext.Code ctx) then None
             else
               (case ExecuteCode D (Engine this) of
                  Inl err \<Rightarrow> None
                | Inr engine \<Rightarrow>
                    (case Invoke_checkStack engine of
                       Some err \<Rightarrow> None
                     | None \<Rightarrow>
                         (case Invoke_gas D engine sc of
                            Inl err \<Rightarrow> None
                          | Inr (engine, sc) \<Rightarrow> Some (this\<lparr>Engine := engine\<rparr>, sc))))))"

text \<open>The action of a \<^verbatim>\<open>SYSCALL\<close>. A call of \<^verbatim>\<open>Runtime.Notify\<close> emits the event made of
  the address of the current context and the item on top of the evaluation stack after
  the name has been read. A call of another service is recorded with what it appended
  to the transaction's list.\<close>

definition SystemCall_actions ::
    "('db, 'key) Deps \<Rightarrow> NeoVmService \<Rightarrow> 'db SmartContract \<Rightarrow> action list" where
  "SystemCall_actions D this sc =
     (case ReadVarString D (Engine this) (MAX_BYTEARRAY_SIZE D) of
        Inl err \<Rightarrow> []
      | Inr (name, engine) \<Rightarrow>
          (case ServiceMap D name of
             None \<Rightarrow> []
           | Some service \<Rightarrow>
               if Execute service = RuntimeNotify then
                 (case EvaluationStack engine of
                    [] \<Rightarrow> []
                  | item # rest \<Rightarrow>
                      (case CurrentContext sc of
                         None \<Rightarrow> []
                       | Some context \<Rightarrow>
                           [Emit \<lparr>NotifyEventInfo.ContractAddress = ContractAddress context,
                                  States = item\<rparr>]))
               else
                 (case SystemCall D this sc of
                    Inl err \<Rightarrow> []
                  | Inr (this', sc') \<Rightarrow>
                      [Pushed (drop (length (Notifications sc)) (Notifications sc'))])))"

text \<open>The action of one iteration; \<open>frame\<close> gives the actions of a callee's frame from
  the child service and the state that \<^verbatim>\<open>APPCALL\<close> hands to its \<^verbatim>\<open>Invoke\<close>.\<close>

definition iteration_actions ::
    "('db, 'key) Deps \<Rightarrow> (NeoVmService \<Rightarrow> 'db SmartContract \<Rightarrow> action list)
       \<Rightarrow> NeoVmService \<Rightarrow> 'db SmartContract \<Rightarrow> action list" where
  "iteration_actions D frame this sc =
     (case Invoke_fetch D this sc of
        None \<Rightarrow> []
      | Some (this, sc) \<Rightarrow>
          if OpCode (Engine this) = SYSCALL then SystemCall_actions D this sc
          else if OpCode (Engine this) = APPCALL then
            (case Invoke_APPCALL_target D (Engine this) sc of
               Inl err \<Rightarrow> []
             | Inr (code, engine) \<Rightarrow>
                 (case NewExecuteEngine sc code of
                    Inl err \<Rightarrow> []
                  | Inr service \<Rightarrow>
                      [Call (frame (service\<lparr>Engine := CopyTo (EvaluationStack engine) (Engine service)\<rparr>) sc)]))
          else [])"

text \<open>The actions of the loop, following the run iteration by iteration, and the
  actions of a whole \<^verbatim>\<open>Invoke\<close>.\<close>

primrec Invoke_loop_actions ::
    "('db, 'key) Deps \<Rightarrow> nat \<Rightarrow> NeoVmService \<Rightarrow> 'db SmartContract \<Rightarrow> action list" where
  "Invoke_loop_actions D 0 this sc = []"
| "Invoke_loop_actions D (Suc n) this sc =
     (case Invoke_iteration D (Invoke D n) this sc of
        Some (Inr (LoopNext (this', sc'))) \<Rightarrow>
          iteration_actions D
            (\<lambda>child sc. Invoke_loop_actions D n (fst (Invoke_enter D child sc)) (snd (Invoke_enter D child sc)))
            this sc
          @ Invoke_loop_actions D n this' sc'
      | _ \<Rightarrow> [])"

definition Invoke_actions ::
    "('db, 'key) Deps \<Rightarrow> nat \<Rightarrow> NeoVmService \<Rightarrow> 'db SmartContract \<Rightarrow> action list" where
  "Invoke_actions D n this sc =
     Invoke_loop_actions D n (fst (Invoke_enter D this sc)) (snd (Invoke_enter D this sc))"

text \<open>The assumption on the registered services, whose code lies outside the files
  embedded here: \<^verbatim>\<open>Runtime.Notify\<close> is the only service that writes to the buffer of the
  frame; any other service leaves that buffer as it is and at most appends to the
  transaction's list.\<close>

definition Notify_writes_buffer :: "('db, 'key) Deps \<Rightarrow> bool" where
  "Notify_writes_buffer D \<longleftrightarrow>
     (\<forall>name service. ServiceMap D name = Some service \<longrightarrow>
        Execute service = RuntimeNotify
        \<or> (\<forall>this sc this' sc'. Execute service this sc = Inr (this', sc') \<longrightarrow>
              NeoVmService.Notifications this' = NeoVmService.Notifications this
              \<and> (\<exists>es. Notifications sc' = Notifications sc @ es)))"

section \<open>Concrete inputs\<close>

text \<open>Two contract contexts, the address of a signer, and a \<^verbatim>\<open>SmartContract\<close> holding a
  given context stack, for a transaction whose \<^verbatim>\<open>GetSignatureAddresses\<close> returns \<open>sigs\<close>.\<close>

definition ex_ctx_A :: Context where
  "ex_ctx_A = \<lparr>ContractAddress = [10, 10, 10, 10, 10, 10, 10, 10, 10, 10, 10, 10, 10, 10, 10, 10, 10, 10, 10, 10], Code = [1]\<rparr>"

definition ex_ctx_B :: Context where
  "ex_ctx_B = \<lparr>ContractAddress = [11, 11, 11, 11, 11, 11, 11, 11, 11, 11, 11, 11, 11, 11, 11, 11, 11, 11, 11, 11], Code = [2]\<rparr>"

definition ex_signer :: Address where
  "ex_signer = [7, 7, 7, 7, 7, 7, 7, 7, 7, 7, 7, 7, 7, 7, 7, 7, 7, 7, 7, 7]"

definition ex_contract ::
    "Context list \<Rightarrow> error + Address list \<Rightarrow> (Address \<times> byte list) list SmartContract" where
  "ex_contract cs sigs =
     \<lparr>Contexts = cs, CacheDB = [],
      Config = \<lparr>Time = 0, Height = 0, BlockHash = [], Tx = \<lparr>GetSignatureAddresses = sigs\<rparr>\<rparr>,
      Notifications = [], Gas = 1000, ExecStep = 0, PreExec = False\<rparr>"

text \<open>A stand-in for the parameters, used only to run the model on the concrete inputs
  below. The interpreter fetches one opcode byte and knows the push-bytes opcodes (\<open>n\<close>
  operand bytes are pushed as one byte string) and \<^verbatim>\<open>PUSH1\<close> to \<^verbatim>\<open>PUSH16\<close> (bytes 0x51 to
  0x60, the integer 1 to 16 is pushed); every other opcode faults; a name is
  read as one length byte and that many characters; every priced operation costs 1; byte
  strings and Booleans convert to bytes, containers and handles do not; the one
  well-formed key is \<open>ex_key\<close>, the compressed base point of the curve P-256, and every
  other byte string is rejected (those of at most 3 bytes as too short); no signature
  verifies, the concrete inputs hold bad signatures only; the address of a code is its first 20 bytes, padded with zeros;
  the state cache is a list of deployed contracts; \<^verbatim>\<open>Runtime.Notify\<close> is the one service.\<close>

definition ex_ExecuteCode :: "ExecutionEngine \<Rightarrow> error + ExecutionEngine" where
  "ex_ExecuteCode engine =
     (case ExecutionEngine.Context engine of
        None \<Rightarrow> Inl (RuntimePanic ''nil context'')
      | Some ctx \<Rightarrow>
          if InstructionPointer ctx < length (ExecutionContext.Code ctx)
          then Inr (engine\<lparr>OpCode := ExecutionContext.Code ctx ! InstructionPointer ctx,
                           Context := Some (ctx\<lparr>InstructionPointer := InstructionPointer ctx + 1\<rparr>)\<rparr>)
          else Inl (NewErr ''EOF''))"

definition ex_ReadBytes :: "ExecutionEngine \<Rightarrow> nat \<Rightarrow> error + (byte list \<times> ExecutionEngine)" where
  "ex_ReadBytes engine n =
     (case ExecutionEngine.Context engine of
        None \<Rightarrow> Inl (RuntimePanic ''nil context'')
      | Some ctx \<Rightarrow>
          if InstructionPointer ctx + n \<le> length (ExecutionContext.Code ctx)
          then Inr (take n (drop (InstructionPointer ctx) (ExecutionContext.Code ctx)),
                    engine\<lparr>Context := Some (ctx\<lparr>InstructionPointer := InstructionPointer ctx + n\<rparr>)\<rparr>)
          else Inl (NewErr ''EOF''))"

definition ex_string :: "byte list \<Rightarrow> string" where
  "ex_string bs = map (\<lambda>b. char_of (unat b)) bs"

definition ex_ReadVarString :: "ExecutionEngine \<Rightarrow> nat \<Rightarrow> error + (string \<times> ExecutionEngine)" where
  "ex_ReadVarString engine maxlen =
     (case ex_ReadBytes engine 1 of
        Inl err \<Rightarrow> Inl err
      | Inr (len, engine) \<Rightarrow>
          if unat (hd len) > maxlen then Inl (NewErr ''string too long'')
          else (case ex_ReadBytes engine (unat (hd len)) of
                  Inl err \<Rightarrow> Inl err
                | Inr (bs, engine) \<Rightarrow> Inr (ex_string bs, engine)))"

definition ex_StepInto :: "ExecutionEngine \<Rightarrow> error + ExecutionEngine" where
  "ex_StepInto engine =
     (if OpCode engine \<ge> PUSHBYTES1 \<and> OpCode engine \<le> PUSHBYTES75 then
        (case ex_ReadBytes engine (unat (OpCode engine)) of
           Inl err \<Rightarrow> Inl err
         | Inr (bs, engine) \<Rightarrow> Inr (PushData engine (ByteArray bs)))
      else if OpCode engine \<ge> 0x51 \<and> OpCode engine \<le> PUSH16 then
        Inr (PushData engine (Integer (uint (OpCode engine) - 0x50)))
      else Inr (engine\<lparr>State := FAULT\<rparr>))"

fun ex_GetByteArray :: "StackItem \<Rightarrow> error + byte list" where
  "ex_GetByteArray (ByteArray bs) = Inr bs"
| "ex_GetByteArray (Boolean b) = Inr (if b then [1] else [])"
| "ex_GetByteArray (Integer i) =
     (if i = 0 then Inr [] else if 0 < i \<and> i < 128 then Inr [of_int i]
      else Inl (NewErr ''integer outside the range of the stand-in''))"
| "ex_GetByteArray item = Inl (NewErr ''Not support array to byte array'')"

definition ex_key :: "byte list" where
  "ex_key =
    [0x03, 0x6B, 0x17, 0xD1, 0xF2, 0xE1, 0x2C, 0x42, 0x47, 0xF8, 0xBC, 0xE6, 0xE5, 0x63, 0xA4, 0x40, 0xF2,
     0x77, 0x03, 0x7D, 0x81, 0x2D, 0xEB, 0x33, 0xA0, 0xF4, 0xA1, 0x39, 0x45, 0xD8, 0x98, 0xC2, 0x96]"

definition ex_DeserializePublicKey :: "byte list \<Rightarrow> error + byte list" where
  "ex_DeserializePublicKey bs =
     (if length bs \<le> 3 then Inl (NewErr ''too short pubkey'')
      else if bs = ex_key then Inr bs
      else Inl (NewErr ''deserializing public key failed''))"

definition ex_SignatureVerify :: "byte list \<Rightarrow> byte list \<Rightarrow> byte list \<Rightarrow> error option" where
  "ex_SignatureVerify key data sig = Some (NewErr ''signature verification failed'')"

definition ex_Deps :: "((Address \<times> byte list) list, byte list) Deps" where
  "ex_Deps =
     \<lparr>ExecuteCode = ex_ExecuteCode,
      ValidateOp = (\<lambda>engine. Inr (engine\<lparr>OpExecName := ''OP''\<rparr>)),
      StepInto = ex_StepInto,
      GasPrice = (\<lambda>engine name. Inr 1),
      ReadBytes = ex_ReadBytes,
      ReadVarString = ex_ReadVarString,
      GetByteArray = ex_GetByteArray,
      DeserializePublicKey = ex_DeserializePublicKey,
      SignatureVerify = ex_SignatureVerify,
      AddressFromVmCode = (\<lambda>code. take 20 (code @ BYTE_ZERO_20)),
      AddressParseFromBytes = (\<lambda>bs. if length bs \<noteq> 20
                                      then Inl (NewErr ''AddressParseFromBytes err, len != 20'')
                                      else Inr bs),
      GetContract = (\<lambda>db address. Inr (map_of db address)),
      ServiceMap = (\<lambda>name. if name = ''Runtime.Notify''
                            then Some \<lparr>Execute = RuntimeNotify, Validator = Some validatorNotify\<rparr>
                            else None),
      OPCODE_GAS = 1,
      VM_STEP_LIMIT = 8000000,
      MAX_BYTEARRAY_SIZE = 1048576\<rparr>"

text \<open>Scenario S4. Contract \<open>B\<close> pushes \<open>b1\<close> and calls \<^verbatim>\<open>Runtime.Notify\<close>. Contract \<open>A\<close>
  pushes \<open>a1\<close> and notifies, calls \<open>B\<close> by \<^verbatim>\<open>APPCALL\<close> with the address of \<open>B\<close> as operand,
  then pushes \<open>a2\<close> and notifies. The transaction starts with no context and no
  notification, and runs the service that \<^verbatim>\<open>NewExecuteEngine\<close> creates for the code of
  \<open>A\<close>.\<close>

definition ex_notify :: "byte list" where
  "ex_notify = [0x68, 14, 0x52, 0x75, 0x6E, 0x74, 0x69, 0x6D, 0x65, 0x2E,
                0x4E, 0x6F, 0x74, 0x69, 0x66, 0x79]"

definition ex_code_B :: "byte list" where
  "ex_code_B = [0x02, 0x62, 0x31] @ ex_notify"

definition ex_address_B :: Address where
  "ex_address_B = [0x02, 0x62, 0x31, 0x68, 14, 0x52, 0x75, 0x6E, 0x74, 0x69, 0x6D, 0x65, 0x2E,
                   0x4E, 0x6F, 0x74, 0x69, 0x66, 0x79, 0]"

definition ex_code_A :: "byte list" where
  "ex_code_A = [0x02, 0x61, 0x31] @ ex_notify @ [0x67] @ ex_address_B
               @ [0x02, 0x61, 0x32] @ ex_notify"

definition ex_address_A :: Address where
  "ex_address_A = [0x02, 0x61, 0x31, 0x68, 14, 0x52, 0x75, 0x6E, 0x74, 0x69, 0x6D, 0x65, 0x2E,
                   0x4E, 0x6F, 0x74, 0x69, 0x66, 0x79, 0x67]"

definition ex_tx_state :: "(Address \<times> byte list) list SmartContract" where
  "ex_tx_state =
     \<lparr>Contexts = [], CacheDB = [(ex_address_B, ex_code_B)],
      Config = \<lparr>Time = 0, Height = 0, BlockHash = [], Tx = \<lparr>GetSignatureAddresses = Inr []\<rparr>\<rparr>,
      Notifications = [], Gas = 1000, ExecStep = 0, PreExec = False\<rparr>"

definition ex_service :: "byte list \<Rightarrow> NeoVmService" where
  "ex_service code =
     \<lparr>NeoVmService.Notifications = [], NeoVmService.Code = code,
      NeoVmService.Tx = \<lparr>GetSignatureAddresses = Inr []\<rparr>,
      NeoVmService.Time = 0, NeoVmService.Height = 0, NeoVmService.BlockHash = [],
      Engine = NewExecutionEngine, NeoVmService.PreExec = False\<rparr>"

text \<open>The notification list of a run that halted: what \<^verbatim>\<open>Invoke\<close> leaves in
  \<^verbatim>\<open>SmartContract.Notifications\<close>, as pairs of contract address and payload; \<open>None\<close> for a
  run that failed or did not finish.\<close>

definition HaltNotifications ::
    "(error + (StackItem option \<times> 'db SmartContract)) option \<Rightarrow> (Address \<times> StackItem) list option" where
  "HaltNotifications outcome =
     (case outcome of
        Some (Inr (result, sc)) \<Rightarrow>
          Some (map (\<lambda>n. (NotifyEventInfo.ContractAddress n, States n)) (Notifications sc))
      | _ \<Rightarrow> None)"

text \<open>An engine with the given evaluation stack, one frame of the given code read up to
  the given position, and the given opcode fetched last; some data.\<close>

definition ex_engine :: "StackItem list \<Rightarrow> byte list \<Rightarrow> nat \<Rightarrow> byte \<Rightarrow> ExecutionEngine" where
  "ex_engine stack code ip op =
     \<lparr>EvaluationStack = stack, AltStack = [], State = BREAK,
      Contexts = [NewExecutionContext code],
      Context = Some \<lparr>ExecutionContext.Code = code, InstructionPointer = ip\<rparr>,
      OpCode = op, OpExecName = []\<rparr>"

definition ex_data :: "byte list" where
  "ex_data = [1, 2, 3]"

text \<open>Inputs for \<^verbatim>\<open>SystemCall\<close>: a service about to read the name \<^verbatim>\<open>Runtime.Notify\<close>, with one
  item on its evaluation stack, and one about to read a name that is not registered.\<close>

definition ex_syscall_service :: NeoVmService where
  "ex_syscall_service = (ex_service ex_notify)\<lparr>Engine := ex_engine [ByteArray [0x61]] ex_notify 1 SYSCALL\<rparr>"

definition ex_unknown_service :: NeoVmService where
  "ex_unknown_service = (ex_service [0x68, 1, 0x58])\<lparr>Engine := ex_engine [] [0x68, 1, 0x58] 1 SYSCALL\<rparr>"

text \<open>Inputs for \<^verbatim>\<open>APPCALL\<close>. The transaction is inside a contract and \<open>B\<close> is deployed. One
  service has fetched \<^verbatim>\<open>APPCALL\<close> with the address of \<open>B\<close> as operand and holds one item on
  its evaluation stack; another has fetched \<^verbatim>\<open>APPCALL\<close> with the zero operand and holds the
  address of \<open>B\<close> on top of that item.\<close>

definition ex_tx_in_A :: "(Address \<times> byte list) list SmartContract" where
  "ex_tx_in_A = ex_tx_state\<lparr>Contexts := [ex_ctx_A]\<rparr>"

definition ex_appcall_service :: NeoVmService where
  "ex_appcall_service =
     (ex_service ([0x67] @ ex_address_B))
       \<lparr>Engine := ex_engine [ByteArray [0x61]] ([0x67] @ ex_address_B) 1 APPCALL\<rparr>"

definition ex_appcall_zero_service :: NeoVmService where
  "ex_appcall_zero_service =
     (ex_service ([0x67] @ BYTE_ZERO_20))
       \<lparr>Engine := ex_engine [ByteArray ex_address_B, ByteArray [0x61]] ([0x67] @ BYTE_ZERO_20) 1 APPCALL\<rparr>"

definition ex_child_B :: NeoVmService where
  "ex_child_B = (ex_service ex_code_B)\<lparr>Engine := NewExecutionEngine\<lparr>EvaluationStack := [ByteArray [0x61]]\<rparr>\<rparr>"

text \<open>The transaction with \<open>n\<close> contexts on its stack and \<open>B\<close> deployed.\<close>

definition ex_tx_deep :: "nat \<Rightarrow> (Address \<times> byte list) list SmartContract" where
  "ex_tx_deep n = ex_tx_state\<lparr>Contexts := replicate n ex_ctx_A\<rparr>"

text \<open>A service whose evaluation stack holds 2048 items and whose code is twice the given
  opcode, none fetched yet.\<close>

definition ex_full_service :: "byte \<Rightarrow> NeoVmService" where
  "ex_full_service op =
     (ex_service [op, op])\<lparr>Engine := ex_engine (replicate 2048 (Integer 0)) [op, op] 0 0\<rparr>"

section \<open>Properties of the context stack\<close>

lemma PopContext_Contexts:
  "Contexts (PopContext sc) =
     (if 2 \<le> length (Contexts sc) then butlast (Contexts sc) else Contexts sc)"
  by (simp add: PopContext_def butlast_conv_take)

lemma PopContext_keeps_entry:
  "EntryContext (PopContext sc) = EntryContext sc"
  by (cases "Contexts sc") (auto simp: PopContext_def EntryContext_def)

lemma PopContext_nonempty:
  "Contexts sc \<noteq> [] \<Longrightarrow> Contexts (PopContext sc) \<noteq> []"
  by (cases "Contexts sc") (auto simp: PopContext_def)

lemma PopContext_funpow_entry:
  "EntryContext ((PopContext ^^ n) sc) = EntryContext sc"
  by (induction n) (simp_all add: PopContext_keeps_entry)

lemma PopContext_funpow_nonempty:
  "Contexts sc \<noteq> [] \<Longrightarrow> Contexts ((PopContext ^^ n) sc) \<noteq> []"
  by (induction n) (simp_all add: PopContext_nonempty)

text \<open>Claim C7. \<^verbatim>\<open>PopContext\<close> removes the top context exactly when at least two contexts
  are on the stack and changes nothing otherwise, so however often it is applied the entry
  context \<open>Contexts[0]\<close> stays where it is and a non-empty stack stays non-empty.
  \<^verbatim>\<open>EntryContext\<close> is the first context, \<^verbatim>\<open>CurrentContext\<close> the last and \<^verbatim>\<open>CallingContext\<close>
  the one before the last; each is nil when the stack is too short for it.\<close>

theorem C7_context_stack:
  "Contexts (PopContext sc) =
     (if 2 \<le> length (Contexts sc) then butlast (Contexts sc) else Contexts sc)
   \<and> (length (Contexts sc) < 2 \<longrightarrow> PopContext sc = sc)
   \<and> EntryContext ((PopContext ^^ n) sc) = EntryContext sc
   \<and> (Contexts sc \<noteq> [] \<longrightarrow> Contexts ((PopContext ^^ n) sc) \<noteq> []
        \<and> hd (Contexts ((PopContext ^^ n) sc)) = hd (Contexts sc))
   \<and> EntryContext sc = (case Contexts sc of [] \<Rightarrow> None | c # cs \<Rightarrow> Some c)
   \<and> CurrentContext sc = (if Contexts sc = [] then None else Some (last (Contexts sc)))
   \<and> CallingContext sc =
       (if length (Contexts sc) < 2 then None else Some (last (butlast (Contexts sc))))"
proof -
  have entry: "EntryContext sc = (case Contexts sc of [] \<Rightarrow> None | c # cs \<Rightarrow> Some c)" for sc :: "'a SmartContract"
    by (cases "Contexts sc") (simp_all add: EntryContext_def)
  have hd_kept: "hd (Contexts ((PopContext ^^ n) sc)) = hd (Contexts sc)" if ne: "Contexts sc \<noteq> []"
  proof -
    have ne': "Contexts ((PopContext ^^ n) sc) \<noteq> []"
      using ne by (rule PopContext_funpow_nonempty)
    have "EntryContext ((PopContext ^^ n) sc) = EntryContext sc"
      by (rule PopContext_funpow_entry)
    then show ?thesis
      using ne ne' by (simp add: EntryContext_def hd_conv_nth)
  qed
  have cur: "CurrentContext sc = (if Contexts sc = [] then None else Some (last (Contexts sc)))"
    by (simp add: CurrentContext_def last_conv_nth)
  have calling: "CallingContext sc =
       (if length (Contexts sc) < 2 then None else Some (last (butlast (Contexts sc))))"
  proof (cases "length (Contexts sc) < 2")
    case True
    then show ?thesis by (simp add: CallingContext_def)
  next
    case False
    then have "butlast (Contexts sc) \<noteq> []"
      by (cases "Contexts sc") (auto simp: neq_Nil_conv)
    then have "last (butlast (Contexts sc)) = Contexts sc ! (length (Contexts sc) - 2)"
      using False by (simp add: last_conv_nth nth_butlast numeral_2_eq_2)
    then show ?thesis using False by (simp add: CallingContext_def)
  qed
  show ?thesis
    using PopContext_Contexts [of sc] PopContext_funpow_entry [of n sc]
      PopContext_funpow_nonempty [of sc n] hd_kept entry [of sc] cur calling
    by (simp add: PopContext_def)
qed

theorem C7_context_stack_witness:
  "length (Contexts (ex_contract [ex_ctx_A] (Inr []))) < 2
   \<and> PopContext (ex_contract [ex_ctx_A] (Inr [])) = ex_contract [ex_ctx_A] (Inr [])
   \<and> Contexts (ex_contract [ex_ctx_A] (Inr [])) \<noteq> []
   \<and> hd (Contexts ((PopContext ^^ 3) (ex_contract [ex_ctx_A] (Inr [])))) = ex_ctx_A"
  using C7_context_stack [of "ex_contract [ex_ctx_A] (Inr [])" 3]
  by (simp add: ex_contract_def)

section \<open>Properties of \<^verbatim>\<open>CheckWitness\<close>\<close>

lemma rangeAddresses_iff: "rangeAddresses addresses address \<longleftrightarrow> address \<in> set addresses"
  by (induction addresses) auto

lemma checkAccountAddress_iff:
  "checkAccountAddress sc addr \<longleftrightarrow>
     (\<exists>addresses. GetSignatureAddresses (Tx (Config sc)) = Inr addresses \<and> addr \<in> set addresses)"
  by (simp add: checkAccountAddress_def rangeAddresses_iff split: sum.splits)

lemma checkContractAddress_iff:
  "checkContractAddress sc addr \<longleftrightarrow>
     (\<exists>c. CallingContext sc = Some c \<and> ContractAddress c = addr)"
  by (simp add: checkContractAddress_def split: option.splits)

lemma CallingContext_snoc2: "Contexts sc = cs @ [a, b] \<Longrightarrow> CallingContext sc = Some a"
  by (simp add: CallingContext_def nth_append)

lemma CurrentContext_snoc2: "Contexts sc = cs @ [a, b] \<Longrightarrow> CurrentContext sc = Some b"
  by (simp add: CurrentContext_def nth_append)

text \<open>Claim C2. \<^verbatim>\<open>CheckWitness(addr)\<close> is true exactly when \<open>addr\<close> is one of the signature
  addresses the transaction returns, or \<open>addr\<close> is the contract address of the calling
  context, the second from the top of the context stack. So with contract \<open>A\<close> calling
  contract \<open>B\<close> (contexts \<open>\<dots>, A, B\<close>), \<^verbatim>\<open>CheckWitness(address_of_A)\<close> is true, and
  \<^verbatim>\<open>CheckWitness(address_of_B)\<close> is false for a \<open>B\<close> that is neither \<open>A\<close> itself nor a signer
  of the transaction: being the current context gives \<open>B\<close> no authorisation.\<close>

theorem C2_CheckWitness_iff:
  "(CheckWitness sc addr \<longleftrightarrow>
      (\<exists>addresses. GetSignatureAddresses (Tx (Config sc)) = Inr addresses \<and> addr \<in> set addresses)
      \<or> (\<exists>c. CallingContext sc = Some c \<and> ContractAddress c = addr))
   \<and> (Contexts sc = cs @ [A, B] \<longrightarrow>
        CurrentContext sc = Some B \<and> CallingContext sc = Some A
        \<and> CheckWitness sc (ContractAddress A)
        \<and> (ContractAddress B \<noteq> ContractAddress A
             \<and> (\<forall>addresses. GetSignatureAddresses (Tx (Config sc)) = Inr addresses
                    \<longrightarrow> ContractAddress B \<notin> set addresses)
            \<longrightarrow> \<not> CheckWitness sc (ContractAddress B)))"
  using checkAccountAddress_iff [of sc] checkContractAddress_iff [of sc]
    CallingContext_snoc2 [of sc cs A B] CurrentContext_snoc2 [of sc cs A B]
  by (auto simp: CheckWitness_def)

theorem C2_CheckWitness_iff_witness:
  "Contexts (ex_contract [ex_ctx_A, ex_ctx_B] (Inr [ex_signer])) = [] @ [ex_ctx_A, ex_ctx_B]
   \<and> ContractAddress ex_ctx_B \<noteq> ContractAddress ex_ctx_A
   \<and> GetSignatureAddresses (Tx (Config (ex_contract [ex_ctx_A, ex_ctx_B] (Inr [ex_signer]))))
       = Inr [ex_signer]
   \<and> ContractAddress ex_ctx_B \<notin> set [ex_signer]
   \<and> CheckWitness (ex_contract [ex_ctx_A, ex_ctx_B] (Inr [ex_signer])) (ContractAddress ex_ctx_A)
   \<and> \<not> CheckWitness (ex_contract [ex_ctx_A, ex_ctx_B] (Inr [ex_signer])) (ContractAddress ex_ctx_B)"
  using C2_CheckWitness_iff [of "ex_contract [ex_ctx_A, ex_ctx_B] (Inr [ex_signer])" ex_signer "[]" ex_ctx_A ex_ctx_B]
  by (simp add: ex_contract_def ex_ctx_A_def ex_ctx_B_def ex_signer_def checkAccountAddress_def)

text \<open>Claim C10. When \<^verbatim>\<open>GetSignatureAddresses\<close> fails, \<^verbatim>\<open>checkAccountAddress\<close> swallows the
  error and answers false, and \<^verbatim>\<open>CheckWitness\<close> answers what \<^verbatim>\<open>checkContractAddress\<close>
  answers: the address is authorised exactly when it is the calling contract's.\<close>

theorem C10_signature_error_swallowed:
  "GetSignatureAddresses (Tx (Config sc)) = Inl err \<Longrightarrow>
     checkAccountAddress sc addr = False
     \<and> CheckWitness sc addr = checkContractAddress sc addr
     \<and> (CheckWitness sc addr \<longleftrightarrow>
          (\<exists>c. CallingContext sc = Some c \<and> ContractAddress c = addr))"
proof -
  assume failed: "GetSignatureAddresses (Tx (Config sc)) = Inl err"
  then have account: "checkAccountAddress sc addr = False"
    by (simp add: checkAccountAddress_def)
  then have witness: "CheckWitness sc addr = checkContractAddress sc addr"
    by (simp add: CheckWitness_def)
  moreover have "checkContractAddress sc addr \<longleftrightarrow>
      (\<exists>c. CallingContext sc = Some c \<and> ContractAddress c = addr)"
    by (rule checkContractAddress_iff)
  ultimately show ?thesis using account by simp
qed

theorem C10_signature_error_swallowed_witness:
  "GetSignatureAddresses (Tx (Config (ex_contract [ex_ctx_A, ex_ctx_B] (Inl (NewErr ''no signature'')))))
     = Inl (NewErr ''no signature'')
   \<and> \<not> checkAccountAddress (ex_contract [ex_ctx_A, ex_ctx_B] (Inl (NewErr ''no signature''))) (ContractAddress ex_ctx_A)
   \<and> CheckWitness (ex_contract [ex_ctx_A, ex_ctx_B] (Inl (NewErr ''no signature''))) (ContractAddress ex_ctx_A)"
  using C10_signature_error_swallowed [of "ex_contract [ex_ctx_A, ex_ctx_B] (Inl (NewErr ''no signature''))"
      "NewErr ''no signature''" "ContractAddress ex_ctx_A"]
  by (simp add: ex_contract_def CallingContext_def checkContractAddress_def checkAccountAddress_def)

section \<open>Properties of \<^verbatim>\<open>encodeID\<close> and \<^verbatim>\<open>decodeID\<close>\<close>

lemma length_byte_roundtrip:
  "n \<le> 255 \<Longrightarrow> unat (of_nat n :: byte) = n"
  by (simp add: unat_of_nat)

lemma encodeID_ok:
  "1 \<le> length i \<Longrightarrow> length i \<le> 255 \<Longrightarrow>
     encodeID pre i = Inr (pre @ [of_nat (length i)] @ i)"
  by (cases i) (simp_all add: encodeID_def)

lemma decodeID_encoded:
  "length i \<le> 255 \<Longrightarrow> decodeID pre (pre @ [of_nat (length i)] @ i) = Inr i"
  by (simp add: decodeID_def nth_append length_byte_roundtrip)

lemma decodeID_panics_without_length_byte:
  "length data = length pre \<Longrightarrow> decodeID pre data = Inl (RuntimePanic ''index out of range'')"
  by (simp add: decodeID_def)

text \<open>Claim C9. For an id of 1 to 255 bytes, \<^verbatim>\<open>encodeID\<close> returns the contract address,
  then the length of the id as one byte, then the id, and \<^verbatim>\<open>decodeID\<close> of that returns the
  id. \<^verbatim>\<open>encodeID\<close> returns an error for an id of length 0 or above 255. \<^verbatim>\<open>decodeID\<close>
  returns an error for data shorter than the address, and for data that holds a length
  byte (it is longer than the address) whose total length is not that byte plus the
  address length plus one. It returns bytes, the data after the length byte, exactly for
  data whose length agrees with the length byte.\<close>

theorem C9_encodeID_decodeID:
  "(1 \<le> length i \<and> length i \<le> 255 \<longrightarrow>
      encodeID pre i = Inr (pre @ [of_nat (length i)] @ i)
      \<and> unat (of_nat (length i) :: byte) = length i
      \<and> decodeID pre (pre @ [of_nat (length i)] @ i) = Inr i)
   \<and> (length i = 0 \<or> length i > 255 \<longrightarrow>
        encodeID pre i = Inl (NewErr ''encode ID error: invalid ID length''))
   \<and> (length data < length pre
        \<or> (length pre < length data \<and> length data \<noteq> unat (data ! length pre) + 1 + length pre)
      \<longrightarrow> decodeID pre data = Inl (NewErr ''decode ID error: invalid data length''))
   \<and> ((\<exists>j. decodeID pre data = Inr j) \<longleftrightarrow>
        length pre < length data \<and> length data = unat (data ! length pre) + 1 + length pre)
   \<and> (\<forall>j. decodeID pre data = Inr j \<longrightarrow> j = drop (length pre + 1) data)"
proof -
  have enc: "1 \<le> length i \<and> length i \<le> 255 \<longrightarrow>
      encodeID pre i = Inr (pre @ [of_nat (length i)] @ i)
      \<and> unat (of_nat (length i) :: byte) = length i
      \<and> decodeID pre (pre @ [of_nat (length i)] @ i) = Inr i"
    using encodeID_ok [of i pre] decodeID_encoded [of i pre] length_byte_roundtrip [of "length i"]
    by simp
  have bad: "length i = 0 \<or> length i > 255 \<longrightarrow>
        encodeID pre i = Inl (NewErr ''encode ID error: invalid ID length'')"
    by (auto simp: encodeID_def)
  have dec: "length data < length pre
        \<or> (length pre < length data \<and> length data \<noteq> unat (data ! length pre) + 1 + length pre)
      \<longrightarrow> decodeID pre data = Inl (NewErr ''decode ID error: invalid data length'')"
    by (auto simp: decodeID_def)
  have ok: "(\<exists>j. decodeID pre data = Inr j) \<longleftrightarrow>
        length pre < length data \<and> length data = unat (data ! length pre) + 1 + length pre"
    by (auto simp: decodeID_def Let_def split: if_splits)
  have res: "\<forall>j. decodeID pre data = Inr j \<longrightarrow> j = drop (length pre + 1) data"
    by (auto simp: decodeID_def Let_def split: if_splits)
  from enc bad dec ok res show ?thesis by blast
qed

theorem C9_encodeID_decodeID_witness:
  "1 \<le> length [5, 6 :: byte] \<and> length [5, 6 :: byte] \<le> 255
   \<and> encodeID [0, 0, 3] [5, 6] = Inr [0, 0, 3, 2, 5, 6]
   \<and> decodeID [0, 0, 3] [0, 0, 3, 2, 5, 6] = Inr [5, 6]
   \<and> length ([] :: byte list) = 0
   \<and> encodeID [0, 0, 3] [] = Inl (NewErr ''encode ID error: invalid ID length'')
   \<and> length [0, 0, 3 :: byte] < length [0, 0, 3, 2, 5 :: byte]
   \<and> decodeID [0, 0, 3] [0, 0, 3, 2, 5] = Inl (NewErr ''decode ID error: invalid data length'')"
  using C9_encodeID_decodeID [of "[5, 6]" "[0, 0, 3]" "[0, 0, 3, 2, 5]"]
    C9_encodeID_decodeID [of "[]" "[0, 0, 3]" "[0, 0, 3, 2, 5]"]
  by simp

section \<open>The limit on nested engines\<close>

lemma NewExecuteEngine_succeeds_iff:
  "(\<exists>service. NewExecuteEngine sc code = Inr service) \<longleftrightarrow> length (Contexts sc) \<le> 1024"
  by (auto simp: NewExecuteEngine_def checkContexts_def MAX_EXECUTE_ENGINE_def)

lemma NewExecuteEngine_depth_after_push:
  "NewExecuteEngine sc code = Inr service \<Longrightarrow> length (Contexts (PushContext c sc)) \<le> 1025"
  by (auto simp: NewExecuteEngine_def checkContexts_def MAX_EXECUTE_ENGINE_def PushContext_def
      split: if_splits)

lemma Invoke_frame_loop_depth:
  "Invoke_frame D loop this sc =
     Invoke_frame D (\<lambda>this' sc'. if length (Contexts sc') = Suc (length (Contexts sc))
                                   then loop this' sc' else None) this sc"
  by (simp add: Invoke_frame_def PushContext_def Let_def)

section \<open>The stack-size check\<close>

lemma checkStackSize_iff:
  "checkStackSize engine \<longleftrightarrow>
     \<not> (OpCode engine = UNPACK \<and> EvaluationStack engine = [])
     \<and> charge engine + length (EvaluationStack engine) + length (AltStack engine) \<le> 2048"
  by (auto simp: checkStackSize_def charge_def Let_def DUPLICATE_STACK_SIZE_def
      PUSH16_def DEPTH_def DUP_def OVER_def TUCK_def UNPACK_def
      split: list.splits StackItem.splits)

lemma Invoke_checkStack_skipped:
  "ExecutionEngine.Context engine = Some ctx \<Longrightarrow>
     length (ExecutionContext.Code ctx) \<le> InstructionPointer ctx \<Longrightarrow>
     Invoke_checkStack engine = None"
  by (simp add: Invoke_checkStack_def)

section \<open>\<^verbatim>\<open>SystemCall\<close>\<close>

lemma CheckUseGas_cases:
  "CheckUseGas price sc = (if Gas sc < price then (False, sc) else (True, sc\<lparr>Gas := Gas sc - price\<rparr>))"
  by (simp add: CheckUseGas_def)

text \<open>Claim C5. Once the service name is read, \<^verbatim>\<open>SystemCall\<close> looks it up and returns the
  unsupported-service error for an unknown name. For a known service it runs the
  validator, if there is one, and returns its error wrapped; then it computes the price
  (an error of the gas schedule is returned as it is) and charges it: with less gas than
  the price the result is \<^verbatim>\<open>ERR_GAS_INSUFFICIENT\<close> whatever the effect of the service is, so
  the effect has not run; otherwise the effect runs on the state with the price deducted,
  and its error comes back inside the detail error
  \<^verbatim>\<open>[SystemCall] service execution error!\<close>, its success as it is.\<close>

theorem C5_SystemCall_order:
  assumes "ReadVarString D (Engine this) (MAX_BYTEARRAY_SIZE D) = Inr (name, engine)"
  shows "(ServiceMap D name = None \<longrightarrow>
            SystemCall D this sc
              = Inl (NewErr (''[SystemCall] the given service is not supported: '' @ name)))
    \<and> (\<forall>service. ServiceMap D name = Some service \<longrightarrow>
         (\<forall>validator err. Validator service = Some validator \<and> validator engine = Some err \<longrightarrow>
            SystemCall D this sc
              = Inl (NewDetailErr err ''[SystemCall] there was a service validator error!''))
       \<and> ((Validator service = None \<or> (\<exists>validator. Validator service = Some validator \<and> validator engine = None)) \<longrightarrow>
            (\<forall>err. GasPrice D engine name = Inl err \<longrightarrow> SystemCall D this sc = Inl err)
          \<and> (\<forall>price. GasPrice D engine name = Inr price \<longrightarrow>
               (Gas sc < price \<longrightarrow> SystemCall D this sc = Inl ERR_GAS_INSUFFICIENT)
             \<and> (\<not> Gas sc < price \<longrightarrow>
                  SystemCall D this sc
                    = (case Execute service (this\<lparr>Engine := engine\<rparr>) (sc\<lparr>Gas := Gas sc - price\<rparr>) of
                         Inl err \<Rightarrow> Inl (NewDetailErr err ''[SystemCall] service execution error!'')
                       | Inr r \<Rightarrow> Inr r)))))"
  using assms by (auto simp: SystemCall_def CheckUseGas_cases split: sum.splits option.splits)

lemma ex_string_Notify:
  "ex_string [0x52, 0x75, 0x6E, 0x74, 0x69, 0x6D, 0x65, 0x2E, 0x4E, 0x6F, 0x74, 0x69, 0x66, 0x79]
     = ''Runtime.Notify''"
  unfolding ex_string_def by code_simp

lemma ex_string_X: "ex_string [0x58] = ''X''"
  unfolding ex_string_def by code_simp

lemma ex_read_Notify:
  "ReadVarString ex_Deps (ex_engine stack ex_notify 1 op) (MAX_BYTEARRAY_SIZE ex_Deps)
     = Inr (''Runtime.Notify'', ex_engine stack ex_notify 16 op)"
  by (simp add: ex_Deps_def ex_ReadVarString_def ex_ReadBytes_def ex_engine_def ex_notify_def
      ex_string_Notify)

lemma ex_read_X:
  "ReadVarString ex_Deps (ex_engine stack [0x68, 1, 0x58] 1 op) (MAX_BYTEARRAY_SIZE ex_Deps)
     = Inr (''X'', ex_engine stack [0x68, 1, 0x58] 3 op)"
  by (simp add: ex_Deps_def ex_ReadVarString_def ex_ReadBytes_def ex_engine_def ex_string_X)

theorem C5_SystemCall_order_witness:
  "ReadVarString ex_Deps (Engine ex_unknown_service) (MAX_BYTEARRAY_SIZE ex_Deps)
     = Inr (''X'', ex_engine [] [0x68, 1, 0x58] 3 SYSCALL)
   \<and> ServiceMap ex_Deps ''X'' = None
   \<and> SystemCall ex_Deps ex_unknown_service (ex_contract [ex_ctx_A] (Inr []))
       = Inl (NewErr ''[SystemCall] the given service is not supported: X'')
   \<and> ReadVarString ex_Deps (Engine ex_syscall_service) (MAX_BYTEARRAY_SIZE ex_Deps)
       = Inr (''Runtime.Notify'', ex_engine [ByteArray [0x61]] ex_notify 16 SYSCALL)
   \<and> ServiceMap ex_Deps ''Runtime.Notify''
       = Some \<lparr>Execute = RuntimeNotify, Validator = Some validatorNotify\<rparr>
   \<and> validatorNotify (ex_engine [ByteArray [0x61]] ex_notify 16 SYSCALL) = None
   \<and> GasPrice ex_Deps (ex_engine [ByteArray [0x61]] ex_notify 16 SYSCALL) ''Runtime.Notify'' = Inr 1
   \<and> Gas ((ex_contract [ex_ctx_A] (Inr []))\<lparr>Gas := 0\<rparr>) < 1
   \<and> SystemCall ex_Deps ex_syscall_service ((ex_contract [ex_ctx_A] (Inr []))\<lparr>Gas := 0\<rparr>)
       = Inl ERR_GAS_INSUFFICIENT
   \<and> \<not> Gas (ex_contract [ex_ctx_A] (Inr [])) < 1
   \<and> SystemCall ex_Deps ex_syscall_service (ex_contract [ex_ctx_A] (Inr []))
       = Inr (ex_syscall_service
                \<lparr>Engine := ex_engine [] ex_notify 16 SYSCALL,
                  NeoVmService.Notifications :=
                    [\<lparr>NotifyEventInfo.ContractAddress = ContractAddress ex_ctx_A,
                      States = ByteArray [0x61]\<rparr>]\<rparr>,
              (ex_contract [ex_ctx_A] (Inr []))\<lparr>Gas := 999\<rparr>)"
proof -
  have unknown: "ReadVarString ex_Deps (Engine ex_unknown_service) (MAX_BYTEARRAY_SIZE ex_Deps)
      = Inr (''X'', ex_engine [] [0x68, 1, 0x58] 3 SYSCALL)"
    by (simp add: ex_unknown_service_def ex_read_X del: One_nat_def)
  have known: "ReadVarString ex_Deps (Engine ex_syscall_service) (MAX_BYTEARRAY_SIZE ex_Deps)
      = Inr (''Runtime.Notify'', ex_engine [ByteArray [0x61]] ex_notify 16 SYSCALL)"
    by (simp add: ex_syscall_service_def ex_read_Notify del: One_nat_def)
  have table: "ServiceMap ex_Deps ''X'' = None"
    "ServiceMap ex_Deps ''Runtime.Notify''
       = Some \<lparr>Execute = RuntimeNotify, Validator = Some validatorNotify\<rparr>"
    "GasPrice ex_Deps e n = Inr 1" for e n
    by (simp_all add: ex_Deps_def)
  have valid: "validatorNotify (ex_engine [ByteArray [0x61]] ex_notify 16 SYSCALL) = None"
    by (simp add: validatorNotify_def EvaluationStackCount_def ex_engine_def)
  have effect: "RuntimeNotify (ex_syscall_service\<lparr>Engine := ex_engine [ByteArray [0x61]] ex_notify 16 SYSCALL\<rparr>)
                  ((ex_contract [ex_ctx_A] (Inr []))\<lparr>Gas := Gas (ex_contract [ex_ctx_A] (Inr [])) - 1\<rparr>)
      = Inr (ex_syscall_service
                \<lparr>Engine := ex_engine [] ex_notify 16 SYSCALL,
                  NeoVmService.Notifications :=
                    [\<lparr>NotifyEventInfo.ContractAddress = ContractAddress ex_ctx_A,
                      States = ByteArray [0x61]\<rparr>]\<rparr>,
              (ex_contract [ex_ctx_A] (Inr []))\<lparr>Gas := 999\<rparr>)"
    by (simp add: RuntimeNotify_def CurrentContext_def ex_contract_def ex_engine_def
        ex_syscall_service_def ex_service_def)
  show ?thesis
    using C5_SystemCall_order [OF unknown, of "ex_contract [ex_ctx_A] (Inr [])"]
      C5_SystemCall_order [OF known, of "(ex_contract [ex_ctx_A] (Inr []))\<lparr>Gas := 0\<rparr>"]
      C5_SystemCall_order [OF known, of "ex_contract [ex_ctx_A] (Inr [])"]
      unknown known table valid effect
    by (simp add: ex_contract_def)
qed

section \<open>The \<^verbatim>\<open>VERIFY\<close> opcode\<close>

lemma PopByteArray_Cons:
  "EvaluationStack engine = x # rest \<Longrightarrow>
     PopByteArray D engine
       = (case GetByteArray D x of Inl err \<Rightarrow> Inl err
          | Inr bs \<Rightarrow> Inr (bs, engine\<lparr>EvaluationStack := rest\<rparr>))"
  by (simp add: PopByteArray_def)

lemma Invoke_VERIFY_three:
  "EvaluationStack engine = k # s # d # rest \<Longrightarrow>
     Invoke_VERIFY D engine =
       (case GetByteArray D k of Inl err \<Rightarrow> Inl err | Inr pubKey \<Rightarrow>
        case DeserializePublicKey D pubKey of Inl err \<Rightarrow> Inl err | Inr key \<Rightarrow>
        case GetByteArray D s of Inl err \<Rightarrow> Inl err | Inr sig \<Rightarrow>
        case GetByteArray D d of Inl err \<Rightarrow> Inl err | Inr data \<Rightarrow>
          Inr (engine\<lparr>EvaluationStack := Boolean (SignatureVerify D key data sig = None) # rest\<rparr>))"
  by (simp add: Invoke_VERIFY_def EvaluationStackCount_def PopByteArray_Cons PushData_def
      split: sum.splits option.splits)

lemma Invoke_VERIFY_too_few:
  "length (EvaluationStack engine) < 3 \<Longrightarrow>
     Invoke_VERIFY D engine = Inl (NewErr ''[VERIFY] too few input parameters'')"
  by (simp add: Invoke_VERIFY_def EvaluationStackCount_def)

lemma ex_key_wellformed: "DeserializePublicKey ex_Deps ex_key = Inr ex_key"
  by (simp add: ex_Deps_def ex_DeserializePublicKey_def) (simp add: ex_key_def)

lemma ex_VERIFY_operand_not_bytes:
  "Invoke_VERIFY ex_Deps (ex_engine [ByteArray ex_key, Array [], ByteArray ex_data] [VERIFY] 1 VERIFY)
     = Inl (NewErr ''Not support array to byte array'')"
proof -
  have "GetByteArray ex_Deps (ByteArray ex_key) = Inr ex_key"
    "GetByteArray ex_Deps (Array []) = Inl (NewErr ''Not support array to byte array'')"
    by (simp_all add: ex_Deps_def)
  then show ?thesis
    using ex_key_wellformed
    by (simp add: Invoke_VERIFY_three [where k = "ByteArray ex_key" and s = "Array []"
          and d = "ByteArray ex_data" and rest = "[]"] ex_engine_def)
qed

text \<open>Claim C8 as stated fails: the execution aborts although the public key on top of the
  stack is well-formed (it is the base point of P-256 in compressed form), because the
  signature operand below it is an array, which \<^verbatim>\<open>PopByteArray\<close> cannot convert.\<close>

theorem C8_abort_with_wellformed_key:
  "DeserializePublicKey ex_Deps ex_key = Inr ex_key
   \<and> 3 \<le> length (EvaluationStack (ex_engine [ByteArray ex_key, Array [], ByteArray ex_data] [VERIFY] 1 VERIFY))
   \<and> Invoke_VERIFY ex_Deps (ex_engine [ByteArray ex_key, Array [], ByteArray ex_data] [VERIFY] 1 VERIFY)
       = Inl (NewErr ''Not support array to byte array'')"
  using ex_VERIFY_operand_not_bytes ex_key_wellformed
  by (simp add: ex_engine_def)

text \<open>Claim C8, amended. \<^verbatim>\<open>VERIFY\<close> returns an error with fewer than 3 items on the
  evaluation stack. With at least 3 it works on the top three in this order: the top
  item is converted to bytes and deserialized as the public key, then the second item is
  converted to bytes as the signature, then the third as the data; the first of these
  steps that fails aborts the execution with its error. So it aborts exactly when the
  key operand does not convert, or the key bytes are malformed, or the signature or the
  data operand does not convert. Otherwise it never aborts: it replaces the three
  operands by Boolean true when the signature verifies and by Boolean false when it does
  not.\<close>

theorem C8_VERIFY:
  "(length (EvaluationStack engine) < 3 \<longrightarrow>
      Invoke_VERIFY D engine = Inl (NewErr ''[VERIFY] too few input parameters''))
   \<and> (EvaluationStack engine = k # s # d # rest \<longrightarrow>
        Invoke_VERIFY D engine
          = (case GetByteArray D k of Inl err \<Rightarrow> Inl err | Inr pubKey \<Rightarrow>
             case DeserializePublicKey D pubKey of Inl err \<Rightarrow> Inl err | Inr key \<Rightarrow>
             case GetByteArray D s of Inl err \<Rightarrow> Inl err | Inr sig \<Rightarrow>
             case GetByteArray D d of Inl err \<Rightarrow> Inl err | Inr data \<Rightarrow>
               Inr (engine\<lparr>EvaluationStack := Boolean (SignatureVerify D key data sig = None) # rest\<rparr>))
        \<and> ((\<exists>err. Invoke_VERIFY D engine = Inl err) \<longleftrightarrow>
              (\<exists>err. GetByteArray D k = Inl err)
              \<or> (\<exists>pubKey. GetByteArray D k = Inr pubKey
                    \<and> ((\<exists>err. DeserializePublicKey D pubKey = Inl err)
                         \<or> (\<exists>err. GetByteArray D s = Inl err)
                         \<or> (\<exists>err. GetByteArray D d = Inl err)))))"
proof -
  have few: "length (EvaluationStack engine) < 3 \<longrightarrow>
      Invoke_VERIFY D engine = Inl (NewErr ''[VERIFY] too few input parameters'')"
    using Invoke_VERIFY_too_few [of engine D] by blast
  have three: "Invoke_VERIFY D engine
          = (case GetByteArray D k of Inl err \<Rightarrow> Inl err | Inr pubKey \<Rightarrow>
             case DeserializePublicKey D pubKey of Inl err \<Rightarrow> Inl err | Inr key \<Rightarrow>
             case GetByteArray D s of Inl err \<Rightarrow> Inl err | Inr sig \<Rightarrow>
             case GetByteArray D d of Inl err \<Rightarrow> Inl err | Inr data \<Rightarrow>
               Inr (engine\<lparr>EvaluationStack := Boolean (SignatureVerify D key data sig = None) # rest\<rparr>))"
    if "EvaluationStack engine = k # s # d # rest"
    using that by (rule Invoke_VERIFY_three)
  have aborts: "(\<exists>err. Invoke_VERIFY D engine = Inl err) \<longleftrightarrow>
              (\<exists>err. GetByteArray D k = Inl err)
              \<or> (\<exists>pubKey. GetByteArray D k = Inr pubKey
                    \<and> ((\<exists>err. DeserializePublicKey D pubKey = Inl err)
                         \<or> (\<exists>err. GetByteArray D s = Inl err)
                         \<or> (\<exists>err. GetByteArray D d = Inl err)))"
    if "EvaluationStack engine = k # s # d # rest"
    unfolding three [OF that] by (auto split: sum.splits)
  from few three aborts show ?thesis by blast
qed

theorem C8_VERIFY_witness:
  "length (EvaluationStack (ex_engine [ByteArray ex_key] [VERIFY] 1 VERIFY)) < 3
   \<and> Invoke_VERIFY ex_Deps (ex_engine [ByteArray ex_key] [VERIFY] 1 VERIFY)
       = Inl (NewErr ''[VERIFY] too few input parameters'')
   \<and> EvaluationStack (ex_engine [ByteArray ex_key, ByteArray [9], ByteArray ex_data, Integer 5] [VERIFY] 1 VERIFY)
       = ByteArray ex_key # ByteArray [9] # ByteArray ex_data # [Integer 5]
   \<and> DeserializePublicKey ex_Deps ex_key = Inr ex_key
   \<and> SignatureVerify ex_Deps ex_key ex_data [9] \<noteq> None
   \<and> Invoke_VERIFY ex_Deps (ex_engine [ByteArray ex_key, ByteArray [9], ByteArray ex_data, Integer 5] [VERIFY] 1 VERIFY)
       = Inr (ex_engine [Boolean False, Integer 5] [VERIFY] 1 VERIFY)
   \<and> DeserializePublicKey ex_Deps [9] = Inl (NewErr ''too short pubkey'')
   \<and> Invoke_VERIFY ex_Deps (ex_engine [ByteArray [9], Array [], ByteArray ex_data] [VERIFY] 1 VERIFY)
       = Inl (NewErr ''too short pubkey'')"
proof -
  have short: "DeserializePublicKey ex_Deps [9] = Inl (NewErr ''too short pubkey'')"
    by (simp add: ex_Deps_def ex_DeserializePublicKey_def)
  have conv: "GetByteArray ex_Deps (ByteArray bs) = Inr bs"
    "SignatureVerify ex_Deps key data sig \<noteq> None" for bs key data sig
    by (simp_all add: ex_Deps_def ex_SignatureVerify_def)
  show ?thesis
    using C8_VERIFY [of "ex_engine [ByteArray ex_key] [VERIFY] 1 VERIFY" ex_Deps
        "ByteArray ex_key" "ByteArray [9]" "ByteArray ex_data" "[Integer 5]"]
      C8_VERIFY [of "ex_engine [ByteArray ex_key, ByteArray [9], ByteArray ex_data, Integer 5] [VERIFY] 1 VERIFY"
        ex_Deps "ByteArray ex_key" "ByteArray [9]" "ByteArray ex_data" "[Integer 5]"]
      C8_VERIFY [of "ex_engine [ByteArray [9], Array [], ByteArray ex_data] [VERIFY] 1 VERIFY"
        ex_Deps "ByteArray [9]" "Array []" "ByteArray ex_data" "[]"]
      ex_key_wellformed short conv
    by (simp add: ex_engine_def)
qed

section \<open>Running the model on the concrete contracts\<close>

lemmas ex_run_defs =
  Invoke_def Invoke_frame_def Invoke_iteration_def Invoke_switch_def Invoke_default_def
  Invoke_APPCALL_def Invoke_APPCALL_target_def Invoke_gas_def Invoke_checkStack_def SystemCall_def
  checkStackSize_def getContract_def NewExecuteEngine_def checkContexts_def MAX_EXECUTE_ENGINE_def
  PopByteArray_def PushData_def CopyTo_def NewExecutionEngine_def NewExecutionContext_def
  EnginePushContext_def EvaluationStackCount_def
  PUSHBYTES1_def PUSHBYTES75_def PUSH16_def APPCALL_def SYSCALL_def DEPTH_def DUP_def OVER_def
  TUCK_def VERIFY_def UNPACK_def DUPLICATE_STACK_SIZE_def BYTE_ZERO_20_def
  PushContext_def PopContext_def PushNotifications_def CurrentContext_def CheckUseGas_def
  CheckExecStep_def
  ex_Deps_def ex_ExecuteCode_def ex_ReadBytes_def ex_ReadVarString_def ex_StepInto_def
  validatorNotify_def RuntimeNotify_def ex_notify_def ex_code_A_def ex_code_B_def
  ex_address_A_def ex_address_B_def ex_tx_state_def ex_service_def ex_string_Notify
  ex_engine_def ex_tx_in_A_def ex_ctx_A_def ex_appcall_service_def ex_appcall_zero_service_def
  ex_child_B_def

lemma ex_addresses:
  "AddressFromVmCode ex_Deps ex_code_A = ex_address_A"
  "AddressFromVmCode ex_Deps ex_code_B = ex_address_B"
  "ex_address_A \<noteq> ex_address_B"
  "NewExecuteEngine ex_tx_state ex_code_A = Inr (ex_service ex_code_A)"
  by (simp_all add: ex_run_defs)

lemma ex_run_S4:
  "Invoke ex_Deps (Suc (Suc (Suc (Suc (Suc (Suc n)))))) (ex_service ex_code_A) ex_tx_state
     = Some (Inr (None,
         ex_tx_state
           \<lparr>Contexts := [\<lparr>ContractAddress = ex_address_A, Code = ex_code_A\<rparr>],
             Notifications :=
               [\<lparr>NotifyEventInfo.ContractAddress = ex_address_B, States = ByteArray [0x62, 0x31]\<rparr>,
                \<lparr>NotifyEventInfo.ContractAddress = ex_address_A, States = ByteArray [0x61, 0x31]\<rparr>,
                \<lparr>NotifyEventInfo.ContractAddress = ex_address_A, States = ByteArray [0x61, 0x32]\<rparr>],
             Gas := 990\<rparr>))"
  by (simp add: ex_run_defs)

lemma ex_run_child_B:
  "Invoke ex_Deps (Suc (Suc (Suc n))) ex_child_B ex_tx_in_A
     = Some (Inr (Some (ByteArray [0x61]),
         ex_tx_in_A
           \<lparr>Notifications :=
               [\<lparr>NotifyEventInfo.ContractAddress = ex_address_B, States = ByteArray [0x62, 0x31]\<rparr>],
             Gas := 997\<rparr>))"
  by (simp add: ex_run_defs)

lemma fuel_numerals:
  "(6::nat) = Suc (Suc (Suc (Suc (Suc (Suc 0)))))" "(3::nat) = Suc (Suc (Suc 0))"
  by simp_all

lemma ex_run_appcall:
  "Invoke_APPCALL ex_Deps (Invoke ex_Deps (Suc (Suc (Suc n)))) ex_appcall_service ex_tx_in_A
     = Some (Inr (ex_appcall_service
                    \<lparr>Engine := ex_engine [ByteArray [0x61], ByteArray [0x61]]
                                 ([0x67] @ ex_address_B) 21 APPCALL\<rparr>,
         ex_tx_in_A
           \<lparr>Notifications :=
               [\<lparr>NotifyEventInfo.ContractAddress = ex_address_B, States = ByteArray [0x62, 0x31]\<rparr>],
             Gas := 997\<rparr>))"
  by (simp add: ex_run_defs)

lemma ex_run_appcall_deep:
  "Invoke_APPCALL ex_Deps (Invoke ex_Deps (Suc (Suc (Suc n)))) ex_appcall_service (ex_tx_deep 1024)
     = Some (Inr (ex_appcall_service
                    \<lparr>Engine := ex_engine [ByteArray [0x61], ByteArray [0x61]]
                                 ([0x67] @ ex_address_B) 21 APPCALL\<rparr>,
         (ex_tx_deep 1024)
           \<lparr>Notifications :=
               [\<lparr>NotifyEventInfo.ContractAddress = ex_address_B, States = ByteArray [0x62, 0x31]\<rparr>],
             Gas := 997\<rparr>))"
  "Invoke_APPCALL ex_Deps (Invoke ex_Deps (Suc (Suc (Suc n)))) ex_appcall_service (ex_tx_deep 1025)
     = Some (Inl (Errorf ''engine over max limit!''))"
  by (simp_all add: ex_run_defs ex_tx_deep_def nth_append)

lemma ex_notify_effect:
  "RuntimeNotify (ex_syscall_service\<lparr>Engine := ex_engine [ByteArray [0x61]] ex_notify 16 SYSCALL\<rparr>)
       (ex_contract [ex_ctx_A] (Inr []))
     = Inr (ex_syscall_service
              \<lparr>Engine := ex_engine [] ex_notify 16 SYSCALL,
                NeoVmService.Notifications :=
                  [\<lparr>NotifyEventInfo.ContractAddress = ContractAddress ex_ctx_A,
                    States = ByteArray [0x61]\<rparr>]\<rparr>,
            ex_contract [ex_ctx_A] (Inr []))"
  by (simp add: RuntimeNotify_def CurrentContext_def ex_contract_def ex_engine_def
      ex_syscall_service_def ex_service_def)

section \<open>Errors abort \<^verbatim>\<open>Invoke\<close>\<close>

lemma Invoke_switch_VERIFY_abort:
  "OpCode (Engine this) = VERIFY \<Longrightarrow> Invoke_VERIFY D (Engine this) = Inl err \<Longrightarrow>
     Invoke_switch D invoke this sc = Some (Inl err)"
  by (simp add: Invoke_switch_def)

lemma Invoke_switch_SYSCALL_abort:
  "OpCode (Engine this) = SYSCALL \<Longrightarrow> SystemCall D this sc = Inl err \<Longrightarrow>
     Invoke_switch D invoke this sc
       = Some (Inl (NewDetailErr err ''[NeoVmService] service system call error!''))"
  by (simp add: Invoke_switch_def SYSCALL_def VERIFY_def)

lemma Invoke_switch_APPCALL:
  "OpCode (Engine this) = APPCALL \<Longrightarrow>
     Invoke_switch D invoke this sc = Invoke_APPCALL D invoke this sc"
  by (simp add: Invoke_switch_def SYSCALL_def VERIFY_def APPCALL_def)

lemma Invoke_loop_abort:
  "Invoke_iteration D (Invoke D n) this sc = Some (Inl err) \<Longrightarrow>
     Invoke_loop D (Suc n) this sc = Some (Inl err)"
  by (simp add: Invoke_def)

lemma Invoke_frame_abort:
  "NeoVmService.Code this \<noteq> [] \<Longrightarrow>
     loop (this\<lparr>Engine := EnginePushContext (NewExecutionContext (NeoVmService.Code this)) (Engine this)\<rparr>)
          (PushContext \<lparr>ContractAddress = AddressFromVmCode D (NeoVmService.Code this),
                        Code = NeoVmService.Code this\<rparr> sc) = Some (Inl err) \<Longrightarrow>
     Invoke_frame D loop this sc = Some (Inl err)"
  by (simp add: Invoke_frame_def Let_def)

lemma Invoke_iteration_stack_error:
  "\<not> NeoVmService.PreExec this \<Longrightarrow> ExecutionEngine.Context (Engine this) = Some ctx \<Longrightarrow>
     ExecutionEngine.Contexts (Engine this) \<noteq> [] \<Longrightarrow>
     InstructionPointer ctx < length (ExecutionContext.Code ctx) \<Longrightarrow>
     ExecuteCode D (Engine this) = Inr engine \<Longrightarrow>
     ExecutionEngine.Context engine = Some ctx' \<Longrightarrow>
     InstructionPointer ctx' < length (ExecutionContext.Code ctx') \<Longrightarrow>
     \<not> checkStackSize engine \<Longrightarrow>
     Invoke_iteration D invoke this sc = Some (Inl ERR_CHECK_STACK_SIZE)"
  by (simp add: Invoke_iteration_def Invoke_checkStack_def)

section \<open>The order of notifications\<close>

lemma RuntimeNotify_buffers:
  "RuntimeNotify this sc = Inr (this', sc') \<Longrightarrow>
     sc' = sc
     \<and> (\<exists>item context. CurrentContext sc = Some context
           \<and> EvaluationStack (Engine this) = item # EvaluationStack (Engine this')
           \<and> NeoVmService.Notifications this'
               = NeoVmService.Notifications this
                 @ [\<lparr>NotifyEventInfo.ContractAddress = ContractAddress context, States = item\<rparr>])"
  by (auto simp: RuntimeNotify_def split: list.splits option.splits)

lemma PopContext_Notifications: "Notifications (PopContext sc) = Notifications sc"
  by (simp add: PopContext_def)

lemma Invoke_frame_flushes:
  "Invoke_frame D loop this sc = Some (Inr (result, sc')) \<Longrightarrow>
     \<exists>this2 sc2.
        loop (this\<lparr>Engine := EnginePushContext (NewExecutionContext (NeoVmService.Code this)) (Engine this)\<rparr>)
             (PushContext \<lparr>ContractAddress = AddressFromVmCode D (NeoVmService.Code this),
                           Code = NeoVmService.Code this\<rparr> sc)
          = Some (Inr (this2, sc2))
        \<and> Notifications sc' = Notifications sc2 @ NeoVmService.Notifications this2
        \<and> result = (case EvaluationStack (Engine this2) of [] \<Rightarrow> None | item # rest \<Rightarrow> Some item)"
proof -
  assume run: "Invoke_frame D loop this sc = Some (Inr (result, sc'))"
  let ?this1 = "this\<lparr>Engine := EnginePushContext (NewExecutionContext (NeoVmService.Code this)) (Engine this)\<rparr>"
  let ?sc1 = "PushContext \<lparr>ContractAddress = AddressFromVmCode D (NeoVmService.Code this),
                           Code = NeoVmService.Code this\<rparr> sc"
  from run obtain this2 sc2 where loop: "loop ?this1 ?sc1 = Some (Inr (this2, sc2))"
    by (auto simp: Invoke_frame_def Let_def split: if_splits option.splits sum.splits)
  from run loop have code: "NeoVmService.Code this \<noteq> []"
    by (auto simp: Invoke_frame_def)
  from run loop code have res: "result = (if EvaluationStack (Engine this2) = [] then None
                                          else Some (hd (EvaluationStack (Engine this2))))"
    and sc': "sc' = PushNotifications (NeoVmService.Notifications this2) (PopContext sc2)"
    by (auto simp: Invoke_frame_def Let_def split: if_splits)
  from res have "result = (case EvaluationStack (Engine this2) of [] \<Rightarrow> None | item # rest \<Rightarrow> Some item)"
    by (cases "EvaluationStack (Engine this2)") simp_all
  moreover from sc' have "Notifications sc' = Notifications sc2 @ NeoVmService.Notifications this2"
    by (simp add: PushNotifications_def PopContext_Notifications)
  ultimately show ?thesis using loop by blast
qed

lemma Invoke_APPCALL_keeps_buffer:
  "Invoke_APPCALL D invoke this sc = Some (Inr (this', sc')) \<Longrightarrow>
     NeoVmService.Notifications this' = NeoVmService.Notifications this
     \<and> (\<exists>child result. invoke child sc = Some (Inr (result, sc'))
           \<and> NeoVmService.Notifications child = [])"
  by (auto simp: Invoke_APPCALL_def NewExecuteEngine_def Let_def
      split: if_splits option.splits sum.splits prod.splits)

lemma Invoke_switch_keeps_buffer:
  "OpCode (Engine this) \<noteq> SYSCALL \<Longrightarrow>
     Invoke_switch D invoke this sc = Some (Inr (this', sc')) \<Longrightarrow>
     NeoVmService.Notifications this' = NeoVmService.Notifications this"
  using Invoke_APPCALL_keeps_buffer [of D invoke this sc this' sc']
  by (auto simp: Invoke_switch_def split: if_splits sum.splits)

text \<open>Claim C1 as stated fails on scenario S4: the run halts, and its notification list
  is not \<open>[(A, a1), (B, b1), (A, a2)]\<close>.\<close>

theorem C1_S4_order_counterexample:
  "HaltNotifications (Invoke ex_Deps 6 (ex_service ex_code_A) ex_tx_state) \<noteq> None
   \<and> HaltNotifications (Invoke ex_Deps 6 (ex_service ex_code_A) ex_tx_state)
       \<noteq> Some [(ex_address_A, ByteArray [0x61, 0x31]),
                (ex_address_B, ByteArray [0x62, 0x31]),
                (ex_address_A, ByteArray [0x61, 0x32])]"
  using ex_run_S4 [of 0] ex_addresses(3)
  by (simp add: HaltNotifications_def fuel_numerals(1))

lemma Invoke_fetch_next:
  "Invoke_iteration D invoke this sc = Some (Inr (LoopNext (this', sc'))) \<Longrightarrow>
     \<exists>this1 sc1. Invoke_fetch D this sc = Some (this1, sc1)
       \<and> Invoke_switch D invoke this1 sc1 = Some (Inr (this', sc'))
       \<and> NeoVmService.Notifications this1 = NeoVmService.Notifications this
       \<and> Notifications sc1 = Notifications sc"
  by (auto simp: Invoke_iteration_def Invoke_fetch_def Invoke_gas_def CheckUseGas_def CheckExecStep_def Let_def
      split: if_splits option.splits sum.splits prod.splits)

lemma Invoke_iteration_break:
  "Invoke_iteration D invoke this sc = Some (Inr (LoopBreak (this', sc'))) \<Longrightarrow>
     NeoVmService.Notifications this' = NeoVmService.Notifications this
     \<and> Notifications sc' = Notifications sc"
  by (auto simp: Invoke_iteration_def CheckExecStep_def Let_def
      split: if_splits option.splits sum.splits prod.splits)

lemma SystemCall_buffers:
  assumes table: "Notify_writes_buffer D"
    and call: "SystemCall D this sc = Inr (this', sc')"
  shows "NeoVmService.Notifications this'
           = NeoVmService.Notifications this @ concat (map buffered (SystemCall_actions D this sc))
         \<and> Notifications sc' = Notifications sc @ concat (map flushed (SystemCall_actions D this sc))"
proof -
  from call obtain name engine service price where
    read: "ReadVarString D (Engine this) (MAX_BYTEARRAY_SIZE D) = Inr (name, engine)"
    and look: "ServiceMap D name = Some service"
    and price: "GasPrice D engine name = Inr price" "\<not> Gas sc < price"
    and run: "Execute service (this\<lparr>Engine := engine\<rparr>) (sc\<lparr>Gas := Gas sc - price\<rparr>) = Inr (this', sc')"
    by (auto simp: SystemCall_def CheckUseGas_def Let_def split: sum.splits option.splits if_splits prod.splits)
  show ?thesis
  proof (cases "Execute service = RuntimeNotify")
    case True
    with run have "RuntimeNotify (this\<lparr>Engine := engine\<rparr>) (sc\<lparr>Gas := Gas sc - price\<rparr>) = Inr (this', sc')"
      by simp
    then show ?thesis
      using read look True
      by (auto simp: RuntimeNotify_def SystemCall_actions_def CurrentContext_def
          split: list.splits option.splits if_splits)
  next
    case False
    with table look run have keep: "NeoVmService.Notifications this' = NeoVmService.Notifications this"
      and app: "\<exists>es. Notifications sc' = Notifications sc @ es"
      unfolding Notify_writes_buffer_def by fastforce+
    then show ?thesis
      using read look False call
      by (auto simp: SystemCall_actions_def)
  qed
qed


lemma Invoke_frame_buffers:
  assumes loop: "\<And>t s t' s'. loop t s = Some (Inr (t', s')) \<Longrightarrow>
        NeoVmService.Notifications t' = NeoVmService.Notifications t @ concat (map buffered (acts t s))
        \<and> Notifications s' = Notifications s @ concat (map flushed (acts t s))"
    and run: "Invoke_frame D loop this sc = Some (Inr (result, sc'))"
  shows "Notifications sc'
           = Notifications sc
             @ concat (map flushed (acts (fst (Invoke_enter D this sc)) (snd (Invoke_enter D this sc))))
             @ NeoVmService.Notifications this
             @ concat (map buffered (acts (fst (Invoke_enter D this sc)) (snd (Invoke_enter D this sc))))"
proof -
  from Invoke_frame_flushes [OF run] obtain this2 sc2 where
    l: "loop (fst (Invoke_enter D this sc)) (snd (Invoke_enter D this sc)) = Some (Inr (this2, sc2))"
    and f: "Notifications sc' = Notifications sc2 @ NeoVmService.Notifications this2"
    by (auto simp: Invoke_enter_def)
  from loop [OF l] show ?thesis
    using f by (simp add: Invoke_enter_def PushContext_def)
qed

lemma Invoke_switch_buffers:
  assumes table: "Notify_writes_buffer D"
    and invoke: "\<And>child s result s'. invoke child s = Some (Inr (result, s')) \<Longrightarrow>
        Notifications s'
          = Notifications s @ concat (map flushed (frame child s))
            @ NeoVmService.Notifications child @ concat (map buffered (frame child s))"
    and fetch: "Invoke_fetch D this0 sc0 = Some (this, sc)"
    and run: "Invoke_switch D invoke this sc = Some (Inr (this', sc'))"
  shows "NeoVmService.Notifications this'
           = NeoVmService.Notifications this @ concat (map buffered (iteration_actions D frame this0 sc0))
         \<and> Notifications sc' = Notifications sc @ concat (map flushed (iteration_actions D frame this0 sc0))"
proof -
  consider (sys) "OpCode (Engine this) = SYSCALL"
    | (app) "OpCode (Engine this) = APPCALL"
    | (other) "OpCode (Engine this) \<noteq> SYSCALL" "OpCode (Engine this) \<noteq> APPCALL"
    by blast
  then show ?thesis
  proof cases
    case sys
    with run have "SystemCall D this sc = Inr (this', sc')"
      by (auto simp: Invoke_switch_def SYSCALL_def VERIFY_def split: sum.splits)
    from SystemCall_buffers [OF table this] show ?thesis
      using fetch sys by (simp add: iteration_actions_def)
  next
    case app
    with run have call: "Invoke_APPCALL D invoke this sc = Some (Inr (this', sc'))"
      by (simp add: Invoke_switch_def SYSCALL_def VERIFY_def APPCALL_def)
    then obtain code engine service result where
      target: "Invoke_APPCALL_target D (Engine this) sc = Inr (code, engine)"
      and new: "NewExecuteEngine sc code = Inr service"
      and child: "invoke (service\<lparr>Engine := CopyTo (EvaluationStack engine) (Engine service)\<rparr>) sc
                    = Some (Inr (result, sc'))"
      and keep: "NeoVmService.Notifications this' = NeoVmService.Notifications this"
      by (auto simp: Invoke_APPCALL_def Let_def split: sum.splits option.splits prod.splits)
    from new have fresh: "NeoVmService.Notifications service = []"
      by (auto simp: NewExecuteEngine_def split: if_splits)
    from invoke [OF child] fresh show ?thesis
      using fetch app target new keep
      by (simp add: iteration_actions_def APPCALL_def SYSCALL_def)
  next
    case other
    with run have "NeoVmService.Notifications this' = NeoVmService.Notifications this \<and> sc' = sc"
      by (auto simp: Invoke_switch_def split: if_splits sum.splits)
    then show ?thesis
      using fetch other by (simp add: iteration_actions_def)
  qed
qed

lemma Invoke_iteration_buffers:
  assumes table: "Notify_writes_buffer D"
    and invoke: "\<And>child s result s'. invoke child s = Some (Inr (result, s')) \<Longrightarrow>
        Notifications s'
          = Notifications s @ concat (map flushed (frame child s))
            @ NeoVmService.Notifications child @ concat (map buffered (frame child s))"
    and run: "Invoke_iteration D invoke this sc = Some (Inr (LoopNext (this', sc')))"
  shows "NeoVmService.Notifications this'
           = NeoVmService.Notifications this @ concat (map buffered (iteration_actions D frame this sc))
         \<and> Notifications sc' = Notifications sc @ concat (map flushed (iteration_actions D frame this sc))"
proof -
  from Invoke_fetch_next [OF run] obtain this1 sc1 where
    fetch: "Invoke_fetch D this sc = Some (this1, sc1)"
    and switch: "Invoke_switch D invoke this1 sc1 = Some (Inr (this', sc'))"
    and same: "NeoVmService.Notifications this1 = NeoVmService.Notifications this"
      "Notifications sc1 = Notifications sc"
    by blast
  from Invoke_switch_buffers [OF table invoke fetch switch] same show ?thesis
    by simp
qed

lemma Invoke_loop_buffers:
  assumes table: "Notify_writes_buffer D"
  shows "Invoke_loop D n this sc = Some (Inr (this', sc')) \<Longrightarrow>
     NeoVmService.Notifications this'
       = NeoVmService.Notifications this @ concat (map buffered (Invoke_loop_actions D n this sc))
     \<and> Notifications sc' = Notifications sc @ concat (map flushed (Invoke_loop_actions D n this sc))"
proof (induction n arbitrary: this sc this' sc')
  case 0
  then show ?case by simp
next
  case (Suc n)
  let ?frame = "\<lambda>child sc. Invoke_loop_actions D n (fst (Invoke_enter D child sc)) (snd (Invoke_enter D child sc))"
  have invoke: "Notifications s'
          = Notifications s @ concat (map flushed (?frame child s))
            @ NeoVmService.Notifications child @ concat (map buffered (?frame child s))"
    if "Invoke D n child s = Some (Inr (result, s'))" for child s result s'
    using Invoke_frame_buffers [of "Invoke_loop D n" "Invoke_loop_actions D n" D child s result s']
      Suc.IH that
    by (simp add: Invoke_def)
  from Suc.prems consider
    (brk) "Invoke_iteration D (Invoke D n) this sc = Some (Inr (LoopBreak (this', sc')))"
    | (step) t s where "Invoke_iteration D (Invoke D n) this sc = Some (Inr (LoopNext (t, s)))"
        "Invoke_loop D n t s = Some (Inr (this', sc'))"
    by (auto simp: Invoke_def split: option.splits sum.splits LoopStep.splits prod.splits)
  then show ?case
  proof cases
    case brk
    then show ?thesis
      using Invoke_iteration_break [OF brk] by simp
  next
    case step
    from Invoke_iteration_buffers [OF table invoke step(1)] Suc.IH [OF step(2)]
    show ?thesis
      using step(1) by simp
  qed
qed

lemma Invoke_buffers:
  assumes table: "Notify_writes_buffer D"
    and run: "Invoke D n this sc = Some (Inr (result, sc'))"
  shows "Notifications sc'
           = Notifications sc @ concat (map flushed (Invoke_actions D n this sc))
             @ NeoVmService.Notifications this @ concat (map buffered (Invoke_actions D n this sc))"
  using Invoke_frame_buffers [of "Invoke_loop D n" "Invoke_loop_actions D n" D this sc result sc']
    Invoke_loop_buffers [OF table] run
  by (simp add: Invoke_def Invoke_actions_def)

lemma flushed_only_emits:
  "\<forall>a \<in> set acts. \<exists>e. a = Emit e \<Longrightarrow> concat (map flushed acts) = []"
  by (induction acts) auto

lemma emitted_only_emits:
  "\<forall>a \<in> set acts. \<exists>e. a = Emit e \<Longrightarrow> concat (map emitted acts) = concat (map buffered acts)"
  by (induction acts) auto

lemma only_emits_same_order:
  "\<forall>a \<in> set acts. \<exists>e. a = Emit e \<Longrightarrow> flushed (Call acts) = emitted (Call acts)"
  by (simp add: flushed_only_emits emitted_only_emits)

lemma ex_table: "Notify_writes_buffer ex_Deps"
  by (auto simp: Notify_writes_buffer_def ex_Deps_def split: if_splits)

lemma ex_actions_S4:
  "Invoke_actions ex_Deps (Suc (Suc (Suc (Suc (Suc (Suc n)))))) (ex_service ex_code_A) ex_tx_state
     = [Emit \<lparr>NotifyEventInfo.ContractAddress = ex_address_A, States = ByteArray [0x61, 0x31]\<rparr>,
        Call [Emit \<lparr>NotifyEventInfo.ContractAddress = ex_address_B, States = ByteArray [0x62, 0x31]\<rparr>],
        Emit \<lparr>NotifyEventInfo.ContractAddress = ex_address_A, States = ByteArray [0x61, 0x32]\<rparr>]"
  by (simp add: ex_run_defs Invoke_actions_def Invoke_enter_def iteration_actions_def
      Invoke_fetch_def SystemCall_actions_def)

lemma ex_loop_child_B:
  "Invoke_loop ex_Deps (Suc (Suc (Suc n))) (fst (Invoke_enter ex_Deps ex_child_B ex_tx_in_A))
       (snd (Invoke_enter ex_Deps ex_child_B ex_tx_in_A))
     = Some (Inr
         ((ex_service ex_code_B)
            \<lparr>Engine := (ex_engine [ByteArray [0x61]] ex_code_B 19 SYSCALL)\<lparr>OpExecName := ''OP''\<rparr>,
              NeoVmService.Notifications :=
                [\<lparr>NotifyEventInfo.ContractAddress = ex_address_B, States = ByteArray [0x62, 0x31]\<rparr>]\<rparr>,
          ex_tx_in_A
            \<lparr>Contexts := [ex_ctx_A, \<lparr>ContractAddress = ex_address_B, Code = ex_code_B\<rparr>],
              Gas := 997\<rparr>))"
  "Invoke_loop_actions ex_Deps (Suc (Suc (Suc n))) (fst (Invoke_enter ex_Deps ex_child_B ex_tx_in_A))
       (snd (Invoke_enter ex_Deps ex_child_B ex_tx_in_A))
     = [Emit \<lparr>NotifyEventInfo.ContractAddress = ex_address_B, States = ByteArray [0x62, 0x31]\<rparr>]"
  by (simp_all add: ex_run_defs Invoke_enter_def iteration_actions_def
      Invoke_fetch_def SystemCall_actions_def)

text \<open>Claim C1, amended. Let \<^verbatim>\<open>Runtime.Notify\<close> be the only registered service that writes to
  the buffer of a frame, the other services at most appending to the transaction's list.
  Then for every run of the loop of a frame, the frame's buffer at the end is its buffer at
  the start followed by the events of the \<^verbatim>\<open>Runtime.Notify\<close> calls of this frame (address of
  the current contract, item popped) in the order of the calls, and nothing else; the
  transaction's list at the end is the list at the start followed by what was appended
  while the frame ran, call by call: for a nested \<^verbatim>\<open>APPCALL\<close> the list additions of the
  callee's frame, then the callee's whole buffer. And for every \<^verbatim>\<open>Invoke\<close> that returns,
  the transaction's list is the list before it, followed by what was appended while the
  frame ran, followed by the frame's buffer as one block. So the events of a nested
  callee come before all events of its caller, also those the caller emitted before the
  call, and the list agrees with the order of emission for a frame without nested
  calls. In scenario S4 the actions are \<open>Emit a1, Call [Emit b1], Emit a2\<close>, the order of
  emission is \<open>a1, b1, a2\<close>, and the list on HALT is \<open>[(B, b1), (A, a1), (A, a2)]\<close>.\<close>

theorem C1_notifications_by_frame:
  assumes "Notify_writes_buffer D"
  shows "(Invoke_loop D n t s = Some (Inr (t', s')) \<longrightarrow>
            NeoVmService.Notifications t'
              = NeoVmService.Notifications t @ concat (map buffered (Invoke_loop_actions D n t s))
            \<and> Notifications s' = Notifications s @ concat (map flushed (Invoke_loop_actions D n t s)))
    \<and> (Invoke D n this sc = Some (Inr (result, sc')) \<longrightarrow>
          Notifications sc'
            = Notifications sc @ concat (map flushed (Invoke_actions D n this sc))
              @ NeoVmService.Notifications this @ concat (map buffered (Invoke_actions D n this sc))
          \<and> (NeoVmService.Notifications this = [] \<longrightarrow>
                Notifications sc' = Notifications sc @ flushed (Call (Invoke_actions D n this sc)))
          \<and> (NeoVmService.Notifications this = []
                \<and> (\<forall>a \<in> set (Invoke_actions D n this sc). \<exists>e. a = Emit e) \<longrightarrow>
                Notifications sc' = Notifications sc @ emitted (Call (Invoke_actions D n this sc))))
    \<and> Invoke_actions ex_Deps 6 (ex_service ex_code_A) ex_tx_state
        = [Emit \<lparr>NotifyEventInfo.ContractAddress = ex_address_A, States = ByteArray [0x61, 0x31]\<rparr>,
           Call [Emit \<lparr>NotifyEventInfo.ContractAddress = ex_address_B, States = ByteArray [0x62, 0x31]\<rparr>],
           Emit \<lparr>NotifyEventInfo.ContractAddress = ex_address_A, States = ByteArray [0x61, 0x32]\<rparr>]
    \<and> emitted (Call (Invoke_actions ex_Deps 6 (ex_service ex_code_A) ex_tx_state))
        = [\<lparr>NotifyEventInfo.ContractAddress = ex_address_A, States = ByteArray [0x61, 0x31]\<rparr>,
           \<lparr>NotifyEventInfo.ContractAddress = ex_address_B, States = ByteArray [0x62, 0x31]\<rparr>,
           \<lparr>NotifyEventInfo.ContractAddress = ex_address_A, States = ByteArray [0x61, 0x32]\<rparr>]
    \<and> HaltNotifications (Invoke ex_Deps 6 (ex_service ex_code_A) ex_tx_state)
        = Some [(ex_address_B, ByteArray [0x62, 0x31]),
                (ex_address_A, ByteArray [0x61, 0x31]),
                (ex_address_A, ByteArray [0x61, 0x32])]"
proof -
  have loop: "Invoke_loop D n t s = Some (Inr (t', s')) \<longrightarrow>
            NeoVmService.Notifications t'
              = NeoVmService.Notifications t @ concat (map buffered (Invoke_loop_actions D n t s))
            \<and> Notifications s' = Notifications s @ concat (map flushed (Invoke_loop_actions D n t s))"
    using Invoke_loop_buffers [OF assms, of n t s t' s'] by blast
  have frame: "Notifications sc'
            = Notifications sc @ concat (map flushed (Invoke_actions D n this sc))
              @ NeoVmService.Notifications this @ concat (map buffered (Invoke_actions D n this sc))"
    if "Invoke D n this sc = Some (Inr (result, sc'))"
    using that by (rule Invoke_buffers [OF assms])
  have fresh: "Notifications sc' = Notifications sc @ flushed (Call (Invoke_actions D n this sc))"
    if "Invoke D n this sc = Some (Inr (result, sc'))" "NeoVmService.Notifications this = []"
    using frame [OF that(1)] that(2) by simp
  have flat: "Notifications sc' = Notifications sc @ emitted (Call (Invoke_actions D n this sc))"
    if "Invoke D n this sc = Some (Inr (result, sc'))" "NeoVmService.Notifications this = []"
      "\<forall>a \<in> set (Invoke_actions D n this sc). \<exists>e. a = Emit e"
    using fresh [OF that(1,2)] only_emits_same_order [OF that(3)] by simp
  have acts: "Invoke_actions ex_Deps 6 (ex_service ex_code_A) ex_tx_state
        = [Emit \<lparr>NotifyEventInfo.ContractAddress = ex_address_A, States = ByteArray [0x61, 0x31]\<rparr>,
           Call [Emit \<lparr>NotifyEventInfo.ContractAddress = ex_address_B, States = ByteArray [0x62, 0x31]\<rparr>],
           Emit \<lparr>NotifyEventInfo.ContractAddress = ex_address_A, States = ByteArray [0x61, 0x32]\<rparr>]"
    using ex_actions_S4 [of 0] by (simp add: fuel_numerals(1))
  have order: "emitted (Call (Invoke_actions ex_Deps 6 (ex_service ex_code_A) ex_tx_state))
        = [\<lparr>NotifyEventInfo.ContractAddress = ex_address_A, States = ByteArray [0x61, 0x31]\<rparr>,
           \<lparr>NotifyEventInfo.ContractAddress = ex_address_B, States = ByteArray [0x62, 0x31]\<rparr>,
           \<lparr>NotifyEventInfo.ContractAddress = ex_address_A, States = ByteArray [0x61, 0x32]\<rparr>]"
    unfolding acts by simp
  have s4: "HaltNotifications (Invoke ex_Deps 6 (ex_service ex_code_A) ex_tx_state)
       = Some [(ex_address_B, ByteArray [0x62, 0x31]),
               (ex_address_A, ByteArray [0x61, 0x31]),
               (ex_address_A, ByteArray [0x61, 0x32])]"
    using ex_run_S4 [of 0] by (simp add: HaltNotifications_def fuel_numerals(1))
  from loop frame fresh flat acts order s4 show ?thesis by blast
qed

theorem C1_notifications_by_frame_witness:
  "Notify_writes_buffer ex_Deps
   \<and> Invoke_loop ex_Deps 3 (fst (Invoke_enter ex_Deps ex_child_B ex_tx_in_A))
         (snd (Invoke_enter ex_Deps ex_child_B ex_tx_in_A))
       = Some (Inr
           ((ex_service ex_code_B)
              \<lparr>Engine := (ex_engine [ByteArray [0x61]] ex_code_B 19 SYSCALL)\<lparr>OpExecName := ''OP''\<rparr>,
                NeoVmService.Notifications :=
                  [\<lparr>NotifyEventInfo.ContractAddress = ex_address_B, States = ByteArray [0x62, 0x31]\<rparr>]\<rparr>,
            ex_tx_in_A
              \<lparr>Contexts := [ex_ctx_A, \<lparr>ContractAddress = ex_address_B, Code = ex_code_B\<rparr>],
                Gas := 997\<rparr>))
   \<and> Invoke_loop_actions ex_Deps 3 (fst (Invoke_enter ex_Deps ex_child_B ex_tx_in_A))
         (snd (Invoke_enter ex_Deps ex_child_B ex_tx_in_A))
       = [Emit \<lparr>NotifyEventInfo.ContractAddress = ex_address_B, States = ByteArray [0x62, 0x31]\<rparr>]
   \<and> Invoke ex_Deps 6 (ex_service ex_code_A) ex_tx_state
       = Some (Inr (None,
           ex_tx_state
             \<lparr>Contexts := [\<lparr>ContractAddress = ex_address_A, Code = ex_code_A\<rparr>],
               Notifications :=
                 [\<lparr>NotifyEventInfo.ContractAddress = ex_address_B, States = ByteArray [0x62, 0x31]\<rparr>,
                  \<lparr>NotifyEventInfo.ContractAddress = ex_address_A, States = ByteArray [0x61, 0x31]\<rparr>,
                  \<lparr>NotifyEventInfo.ContractAddress = ex_address_A, States = ByteArray [0x61, 0x32]\<rparr>],
               Gas := 990\<rparr>))
   \<and> NeoVmService.Notifications (ex_service ex_code_A) = []
   \<and> Notifications ex_tx_state = []
   \<and> flushed (Call (Invoke_actions ex_Deps 6 (ex_service ex_code_A) ex_tx_state))
       = [\<lparr>NotifyEventInfo.ContractAddress = ex_address_B, States = ByteArray [0x62, 0x31]\<rparr>,
          \<lparr>NotifyEventInfo.ContractAddress = ex_address_A, States = ByteArray [0x61, 0x31]\<rparr>,
          \<lparr>NotifyEventInfo.ContractAddress = ex_address_A, States = ByteArray [0x61, 0x32]\<rparr>]
   \<and> Invoke ex_Deps 3 ex_child_B ex_tx_in_A
       = Some (Inr (Some (ByteArray [0x61]),
           ex_tx_in_A
             \<lparr>Notifications :=
                 [\<lparr>NotifyEventInfo.ContractAddress = ex_address_B, States = ByteArray [0x62, 0x31]\<rparr>],
               Gas := 997\<rparr>))
   \<and> Invoke_actions ex_Deps 3 ex_child_B ex_tx_in_A
       = [Emit \<lparr>NotifyEventInfo.ContractAddress = ex_address_B, States = ByteArray [0x62, 0x31]\<rparr>]
   \<and> emitted (Call (Invoke_actions ex_Deps 3 ex_child_B ex_tx_in_A))
       = [\<lparr>NotifyEventInfo.ContractAddress = ex_address_B, States = ByteArray [0x62, 0x31]\<rparr>]
   \<and> NeoVmService.Notifications ex_child_B = []
   \<and> Notifications
         (ex_tx_in_A
            \<lparr>Notifications :=
                [\<lparr>NotifyEventInfo.ContractAddress = ex_address_B, States = ByteArray [0x62, 0x31]\<rparr>],
              Gas := 997\<rparr>)
       = Notifications ex_tx_in_A @ flushed (Call (Invoke_actions ex_Deps 3 ex_child_B ex_tx_in_A))"
proof -
  have loop3: "Invoke_loop ex_Deps 3 (fst (Invoke_enter ex_Deps ex_child_B ex_tx_in_A))
         (snd (Invoke_enter ex_Deps ex_child_B ex_tx_in_A))
       = Some (Inr
           ((ex_service ex_code_B)
              \<lparr>Engine := (ex_engine [ByteArray [0x61]] ex_code_B 19 SYSCALL)\<lparr>OpExecName := ''OP''\<rparr>,
                NeoVmService.Notifications :=
                  [\<lparr>NotifyEventInfo.ContractAddress = ex_address_B, States = ByteArray [0x62, 0x31]\<rparr>]\<rparr>,
            ex_tx_in_A
              \<lparr>Contexts := [ex_ctx_A, \<lparr>ContractAddress = ex_address_B, Code = ex_code_B\<rparr>],
                Gas := 997\<rparr>))"
    and acts3: "Invoke_loop_actions ex_Deps 3 (fst (Invoke_enter ex_Deps ex_child_B ex_tx_in_A))
         (snd (Invoke_enter ex_Deps ex_child_B ex_tx_in_A))
       = [Emit \<lparr>NotifyEventInfo.ContractAddress = ex_address_B, States = ByteArray [0x62, 0x31]\<rparr>]"
    using ex_loop_child_B [of 0] by (simp_all only: fuel_numerals(2))
  have run6: "Invoke ex_Deps 6 (ex_service ex_code_A) ex_tx_state
       = Some (Inr (None,
           ex_tx_state
             \<lparr>Contexts := [\<lparr>ContractAddress = ex_address_A, Code = ex_code_A\<rparr>],
               Notifications :=
                 [\<lparr>NotifyEventInfo.ContractAddress = ex_address_B, States = ByteArray [0x62, 0x31]\<rparr>,
                  \<lparr>NotifyEventInfo.ContractAddress = ex_address_A, States = ByteArray [0x61, 0x31]\<rparr>,
                  \<lparr>NotifyEventInfo.ContractAddress = ex_address_A, States = ByteArray [0x61, 0x32]\<rparr>],
               Gas := 990\<rparr>))"
    using ex_run_S4 [of 0] by (simp only: fuel_numerals(1))
  have run3: "Invoke ex_Deps 3 ex_child_B ex_tx_in_A
       = Some (Inr (Some (ByteArray [0x61]),
           ex_tx_in_A
             \<lparr>Notifications :=
                 [\<lparr>NotifyEventInfo.ContractAddress = ex_address_B, States = ByteArray [0x62, 0x31]\<rparr>],
               Gas := 997\<rparr>))"
    using ex_run_child_B [of 0] by (simp only: fuel_numerals(2))
  have child_acts: "Invoke_actions ex_Deps 3 ex_child_B ex_tx_in_A
       = [Emit \<lparr>NotifyEventInfo.ContractAddress = ex_address_B, States = ByteArray [0x62, 0x31]\<rparr>]"
    unfolding Invoke_actions_def by (rule acts3)
  have fresh: "NeoVmService.Notifications (ex_service ex_code_A) = []" "Notifications ex_tx_state = []"
    by (simp_all add: ex_service_def ex_tx_state_def)
  note at_child = C1_notifications_by_frame [OF ex_table, of 3
      "fst (Invoke_enter ex_Deps ex_child_B ex_tx_in_A)"
      "snd (Invoke_enter ex_Deps ex_child_B ex_tx_in_A)"
      "(ex_service ex_code_B)
              \<lparr>Engine := (ex_engine [ByteArray [0x61]] ex_code_B 19 SYSCALL)\<lparr>OpExecName := ''OP''\<rparr>,
                NeoVmService.Notifications :=
                  [\<lparr>NotifyEventInfo.ContractAddress = ex_address_B, States = ByteArray [0x62, 0x31]\<rparr>]\<rparr>"
      "ex_tx_in_A
              \<lparr>Contexts := [ex_ctx_A, \<lparr>ContractAddress = ex_address_B, Code = ex_code_B\<rparr>],
                Gas := 997\<rparr>"
      ex_child_B ex_tx_in_A "Some (ByteArray [0x61])"
      "ex_tx_in_A
             \<lparr>Notifications :=
                 [\<lparr>NotifyEventInfo.ContractAddress = ex_address_B, States = ByteArray [0x62, 0x31]\<rparr>],
               Gas := 997\<rparr>"]
  then have acts6: "Invoke_actions ex_Deps 6 (ex_service ex_code_A) ex_tx_state
        = [Emit \<lparr>NotifyEventInfo.ContractAddress = ex_address_A, States = ByteArray [0x61, 0x31]\<rparr>,
           Call [Emit \<lparr>NotifyEventInfo.ContractAddress = ex_address_B, States = ByteArray [0x62, 0x31]\<rparr>],
           Emit \<lparr>NotifyEventInfo.ContractAddress = ex_address_A, States = ByteArray [0x61, 0x32]\<rparr>]"
    by blast
  have flushed6: "flushed (Call (Invoke_actions ex_Deps 6 (ex_service ex_code_A) ex_tx_state))
       = [\<lparr>NotifyEventInfo.ContractAddress = ex_address_B, States = ByteArray [0x62, 0x31]\<rparr>,
          \<lparr>NotifyEventInfo.ContractAddress = ex_address_A, States = ByteArray [0x61, 0x31]\<rparr>,
          \<lparr>NotifyEventInfo.ContractAddress = ex_address_A, States = ByteArray [0x61, 0x32]\<rparr>]"
    unfolding acts6 by simp
  have emitted3: "emitted (Call (Invoke_actions ex_Deps 3 ex_child_B ex_tx_in_A))
       = [\<lparr>NotifyEventInfo.ContractAddress = ex_address_B, States = ByteArray [0x62, 0x31]\<rparr>]"
    unfolding child_acts by simp
  have child_fresh: "NeoVmService.Notifications ex_child_B = []"
    by (simp add: ex_child_B_def ex_service_def)
  from at_child run3 child_fresh
  have by_frame: "Notifications
         (ex_tx_in_A
            \<lparr>Notifications :=
                [\<lparr>NotifyEventInfo.ContractAddress = ex_address_B, States = ByteArray [0x62, 0x31]\<rparr>],
              Gas := 997\<rparr>)
       = Notifications ex_tx_in_A @ flushed (Call (Invoke_actions ex_Deps 3 ex_child_B ex_tx_in_A))"
    by blast
  show ?thesis
    by (intro conjI)
      (fact ex_table loop3 acts3 run6 fresh flushed6 run3 child_acts emitted3 child_fresh by_frame)+
qed

section \<open>The \<^verbatim>\<open>APPCALL\<close> opcode\<close>

lemma Invoke_APPCALL_target_operand:
  "ReadBytes D engine0 20 = Inr (operand, engine) \<Longrightarrow> operand \<noteq> BYTE_ZERO_20 \<Longrightarrow>
     Invoke_APPCALL_target D engine0 sc
       = (case AddressParseFromBytes D operand of
            Inl err \<Rightarrow> Inl err
          | Inr addr \<Rightarrow> (case getContract D sc addr of
                           Inl err \<Rightarrow> Inl err
                         | Inr code \<Rightarrow> Inr (code, engine)))"
  by (simp add: Invoke_APPCALL_target_def split: sum.splits)

lemma Invoke_APPCALL_target_popped:
  "ReadBytes D engine0 20 = Inr (BYTE_ZERO_20, engine) \<Longrightarrow>
     EvaluationStack engine = item # rest \<Longrightarrow> GetByteArray D item = Inr address \<Longrightarrow>
     Invoke_APPCALL_target D engine0 sc
       = (if length address \<noteq> 20 then Inl (Errorf ''[Appcall] pop contract address len != 20: %x'')
          else (case AddressParseFromBytes D address of
                  Inl err \<Rightarrow> Inl err
                | Inr addr \<Rightarrow> (case getContract D sc addr of
                                 Inl err \<Rightarrow> Inl err
                               | Inr code \<Rightarrow> Inr (code, engine\<lparr>EvaluationStack := rest\<rparr>))))"
  by (simp add: Invoke_APPCALL_target_def PopByteArray_def EvaluationStackCount_def
      split: sum.splits)

lemma Invoke_APPCALL_target_empty:
  "ReadBytes D engine0 20 = Inr (BYTE_ZERO_20, engine) \<Longrightarrow> EvaluationStack engine = [] \<Longrightarrow>
     Invoke_APPCALL_target D engine0 sc = Inl (Errorf ''[Appcall] too few input parameters: %d'')"
  by (simp add: Invoke_APPCALL_target_def EvaluationStackCount_def)

lemma getContract_unknown:
  "GetContract D (CacheDB sc) addr = Inr None \<Longrightarrow> getContract D sc addr = Inl CONTRACT_NOT_EXIST"
  by (simp add: getContract_def)

lemma getContract_known:
  "GetContract D (CacheDB sc) addr = Inr (Some code) \<Longrightarrow> getContract D sc addr = Inr code"
  by (simp add: getContract_def)

lemma Invoke_APPCALL_read_error:
  "ReadBytes D (Engine this) 20 = Inl err \<Longrightarrow>
     Invoke_APPCALL D invoke this sc
       = Some (Inl (ErrorfV ''[Appcall] read contract address error: %v'' err))"
  by (simp add: Invoke_APPCALL_def Invoke_APPCALL_target_def)

lemma Invoke_APPCALL_abort:
  "Invoke_APPCALL_target D (Engine this) sc = Inl err \<Longrightarrow>
     Invoke_APPCALL D invoke this sc = Some (Inl err)"
  by (simp add: Invoke_APPCALL_def)

lemma Invoke_APPCALL_child:
  "Invoke_APPCALL_target D (Engine this) sc = Inr (code, engine) \<Longrightarrow>
     length (Contexts sc) \<le> 1024 \<Longrightarrow>
     Invoke_APPCALL D invoke this sc
       = (case invoke \<lparr>NeoVmService.Notifications = [], NeoVmService.Code = code,
                       NeoVmService.Tx = Tx (Config sc), NeoVmService.Time = Time (Config sc),
                       NeoVmService.Height = Height (Config sc),
                       NeoVmService.BlockHash = BlockHash (Config sc),
                       Engine = NewExecutionEngine\<lparr>EvaluationStack := EvaluationStack engine\<rparr>,
                       NeoVmService.PreExec = PreExec sc\<rparr> sc of
            None \<Rightarrow> None
          | Some (Inl err) \<Rightarrow> Some (Inl err)
          | Some (Inr (None, sc')) \<Rightarrow> Some (Inr (this\<lparr>Engine := engine\<rparr>, sc'))
          | Some (Inr (Some item, sc')) \<Rightarrow>
              Some (Inr (this\<lparr>Engine := engine\<lparr>EvaluationStack := item # EvaluationStack engine\<rparr>\<rparr>, sc')))"
  by (simp add: Invoke_APPCALL_def NewExecuteEngine_def checkContexts_def MAX_EXECUTE_ENGINE_def
      CopyTo_def NewExecutionEngine_def PushData_def Let_def
      split: option.splits sum.splits prod.splits)

lemma ex_appcall_read:
  "ReadBytes ex_Deps (Engine ex_appcall_service) 20
     = Inr (ex_address_B, ex_engine [ByteArray [0x61]] ([0x67] @ ex_address_B) 21 APPCALL)"
  "ReadBytes ex_Deps (Engine ex_appcall_zero_service) 20
     = Inr (BYTE_ZERO_20,
            ex_engine [ByteArray ex_address_B, ByteArray [0x61]] ([0x67] @ BYTE_ZERO_20) 21 APPCALL)"
  "ex_address_B \<noteq> BYTE_ZERO_20"
  "length ex_address_B = 20"
  by (simp_all add: ex_Deps_def ex_ReadBytes_def ex_engine_def ex_appcall_service_def
      ex_appcall_zero_service_def ex_address_B_def BYTE_ZERO_20_def)

lemma ex_appcall_lookup:
  "AddressParseFromBytes ex_Deps ex_address_B = Inr ex_address_B"
  "GetByteArray ex_Deps (ByteArray ex_address_B) = Inr ex_address_B"
  "GetContract ex_Deps (CacheDB ex_tx_in_A) ex_address_B = Inr (Some ex_code_B)"
  "GetContract ex_Deps (CacheDB (ex_contract [ex_ctx_A] (Inr []))) ex_address_B = Inr None"
  "length (Contexts ex_tx_in_A) \<le> 1024"
  by (simp_all add: ex_Deps_def ex_tx_in_A_def ex_tx_state_def ex_contract_def ex_address_B_def)

text \<open>Claim C6. \<^verbatim>\<open>APPCALL\<close> reads 20 operand bytes. When they are not all zero they are the
  target address and the evaluation stack is left alone; when they are all zero the
  address is popped from the evaluation stack, which must not be empty, and the popped
  bytes must be exactly 20. The contract at the target address is looked up, and an
  unknown contract aborts with \<^verbatim>\<open>CONTRACT_NOT_EXIST\<close>, as every error of the lookup does,
  before any child is started. Otherwise (with room for one more engine) the child
  service runs the code found, on a new engine whose evaluation stack is the whole
  evaluation stack of the parent (after the pop, if there was one). When the child's
  \<^verbatim>\<open>Invoke\<close> returns, its result, the top of the child's evaluation stack if that stack is
  not empty, is pushed on the parent's evaluation stack; with no result the parent's stack
  stays as it is; an error of the child is the error of the parent.\<close>

theorem C6_APPCALL:
  assumes "ReadBytes D (Engine this) 20 = Inr (operand, engine)"
  shows "(operand \<noteq> BYTE_ZERO_20 \<longrightarrow>
            Invoke_APPCALL_target D (Engine this) sc
              = (case AddressParseFromBytes D operand of
                   Inl err \<Rightarrow> Inl err
                 | Inr addr \<Rightarrow> (case getContract D sc addr of
                                  Inl err \<Rightarrow> Inl err
                                | Inr code \<Rightarrow> Inr (code, engine))))
    \<and> (operand = BYTE_ZERO_20 \<longrightarrow>
         (EvaluationStack engine = [] \<longrightarrow>
            Invoke_APPCALL D invoke this sc
              = Some (Inl (Errorf ''[Appcall] too few input parameters: %d'')))
       \<and> (\<forall>item rest address.
             EvaluationStack engine = item # rest \<and> GetByteArray D item = Inr address \<longrightarrow>
               (length address \<noteq> 20 \<longrightarrow>
                  Invoke_APPCALL D invoke this sc
                    = Some (Inl (Errorf ''[Appcall] pop contract address len != 20: %x'')))
             \<and> (length address = 20 \<longrightarrow>
                  Invoke_APPCALL_target D (Engine this) sc
                    = (case AddressParseFromBytes D address of
                         Inl err \<Rightarrow> Inl err
                       | Inr addr \<Rightarrow> (case getContract D sc addr of
                                        Inl err \<Rightarrow> Inl err
                                      | Inr code \<Rightarrow> Inr (code, engine\<lparr>EvaluationStack := rest\<rparr>))))))
    \<and> (\<forall>addr. GetContract D (CacheDB sc) addr = Inr None \<longrightarrow>
              getContract D sc addr = Inl CONTRACT_NOT_EXIST)
    \<and> (\<forall>addr code. GetContract D (CacheDB sc) addr = Inr (Some code) \<longrightarrow>
              getContract D sc addr = Inr code)
    \<and> (\<forall>err. Invoke_APPCALL_target D (Engine this) sc = Inl err \<longrightarrow>
              Invoke_APPCALL D invoke this sc = Some (Inl err))
    \<and> (\<forall>code engine'.
          Invoke_APPCALL_target D (Engine this) sc = Inr (code, engine')
          \<and> length (Contexts sc) \<le> 1024 \<longrightarrow>
            Invoke_APPCALL D invoke this sc
              = (case invoke \<lparr>NeoVmService.Notifications = [], NeoVmService.Code = code,
                       NeoVmService.Tx = Tx (Config sc), NeoVmService.Time = Time (Config sc),
                       NeoVmService.Height = Height (Config sc),
                       NeoVmService.BlockHash = BlockHash (Config sc),
                       Engine = NewExecutionEngine\<lparr>EvaluationStack := EvaluationStack engine'\<rparr>,
                       NeoVmService.PreExec = PreExec sc\<rparr> sc of
                   None \<Rightarrow> None
                 | Some (Inl err) \<Rightarrow> Some (Inl err)
                 | Some (Inr (None, sc')) \<Rightarrow> Some (Inr (this\<lparr>Engine := engine'\<rparr>, sc'))
                 | Some (Inr (Some item, sc')) \<Rightarrow>
                     Some (Inr (this\<lparr>Engine := engine'\<lparr>EvaluationStack := item # EvaluationStack engine'\<rparr>\<rparr>, sc'))))
    \<and> (\<forall>child result sc'.
          Invoke D n child sc = Some (Inr (result, sc')) \<longrightarrow>
            (\<exists>child' sc2.
               Invoke_loop D n
                 (child\<lparr>Engine := EnginePushContext (NewExecutionContext (NeoVmService.Code child))
                                     (Engine child)\<rparr>)
                 (PushContext \<lparr>ContractAddress = AddressFromVmCode D (NeoVmService.Code child),
                               Code = NeoVmService.Code child\<rparr> sc)
                 = Some (Inr (child', sc2))
               \<and> result = (case EvaluationStack (Engine child') of
                              [] \<Rightarrow> None | item # rest \<Rightarrow> Some item)))"
proof -
  have operand: "operand \<noteq> BYTE_ZERO_20 \<longrightarrow>
            Invoke_APPCALL_target D (Engine this) sc
              = (case AddressParseFromBytes D operand of
                   Inl err \<Rightarrow> Inl err
                 | Inr addr \<Rightarrow> (case getContract D sc addr of
                                  Inl err \<Rightarrow> Inl err
                                | Inr code \<Rightarrow> Inr (code, engine)))"
    using Invoke_APPCALL_target_operand [OF assms] by blast
  have empty: "operand = BYTE_ZERO_20 \<Longrightarrow> EvaluationStack engine = [] \<Longrightarrow>
            Invoke_APPCALL D invoke this sc
              = Some (Inl (Errorf ''[Appcall] too few input parameters: %d''))"
    using assms by (simp add: Invoke_APPCALL_target_empty Invoke_APPCALL_abort)
  have popped: "Invoke_APPCALL_target D (Engine this) sc
       = (if length address \<noteq> 20 then Inl (Errorf ''[Appcall] pop contract address len != 20: %x'')
          else (case AddressParseFromBytes D address of
                  Inl err \<Rightarrow> Inl err
                | Inr addr \<Rightarrow> (case getContract D sc addr of
                                 Inl err \<Rightarrow> Inl err
                               | Inr code \<Rightarrow> Inr (code, engine\<lparr>EvaluationStack := rest\<rparr>))))"
    if "operand = BYTE_ZERO_20" "EvaluationStack engine = item # rest" "GetByteArray D item = Inr address"
    for item rest address
    using assms that by (simp add: Invoke_APPCALL_target_popped)
  have zero: "operand = BYTE_ZERO_20 \<longrightarrow>
         (EvaluationStack engine = [] \<longrightarrow>
            Invoke_APPCALL D invoke this sc
              = Some (Inl (Errorf ''[Appcall] too few input parameters: %d'')))
       \<and> (\<forall>item rest address.
             EvaluationStack engine = item # rest \<and> GetByteArray D item = Inr address \<longrightarrow>
               (length address \<noteq> 20 \<longrightarrow>
                  Invoke_APPCALL D invoke this sc
                    = Some (Inl (Errorf ''[Appcall] pop contract address len != 20: %x'')))
             \<and> (length address = 20 \<longrightarrow>
                  Invoke_APPCALL_target D (Engine this) sc
                    = (case AddressParseFromBytes D address of
                         Inl err \<Rightarrow> Inl err
                       | Inr addr \<Rightarrow> (case getContract D sc addr of
                                        Inl err \<Rightarrow> Inl err
                                      | Inr code \<Rightarrow> Inr (code, engine\<lparr>EvaluationStack := rest\<rparr>)))))"
    using empty popped by (simp add: Invoke_APPCALL_abort)
  have child: "\<forall>child result sc'.
          Invoke D n child sc = Some (Inr (result, sc')) \<longrightarrow>
            (\<exists>child' sc2.
               Invoke_loop D n
                 (child\<lparr>Engine := EnginePushContext (NewExecutionContext (NeoVmService.Code child))
                                     (Engine child)\<rparr>)
                 (PushContext \<lparr>ContractAddress = AddressFromVmCode D (NeoVmService.Code child),
                               Code = NeoVmService.Code child\<rparr> sc)
                 = Some (Inr (child', sc2))
               \<and> result = (case EvaluationStack (Engine child') of
                              [] \<Rightarrow> None | item # rest \<Rightarrow> Some item))"
  proof (intro allI impI)
    fix child result sc'
    assume "Invoke D n child sc = Some (Inr (result, sc'))"
    then have "Invoke_frame D (Invoke_loop D n) child sc = Some (Inr (result, sc'))"
      by (simp add: Invoke_def)
    from Invoke_frame_flushes [OF this]
    show "\<exists>child' sc2.
               Invoke_loop D n
                 (child\<lparr>Engine := EnginePushContext (NewExecutionContext (NeoVmService.Code child))
                                     (Engine child)\<rparr>)
                 (PushContext \<lparr>ContractAddress = AddressFromVmCode D (NeoVmService.Code child),
                               Code = NeoVmService.Code child\<rparr> sc)
                 = Some (Inr (child', sc2))
               \<and> result = (case EvaluationStack (Engine child') of
                              [] \<Rightarrow> None | item # rest \<Rightarrow> Some item)"
      by blast
  qed
  have unknown: "\<forall>addr. GetContract D (CacheDB sc) addr = Inr None \<longrightarrow>
              getContract D sc addr = Inl CONTRACT_NOT_EXIST"
    by (simp add: getContract_unknown)
  have known: "\<forall>addr code. GetContract D (CacheDB sc) addr = Inr (Some code) \<longrightarrow>
              getContract D sc addr = Inr code"
    by (simp add: getContract_known)
  have abort: "\<forall>err. Invoke_APPCALL_target D (Engine this) sc = Inl err \<longrightarrow>
              Invoke_APPCALL D invoke this sc = Some (Inl err)"
    by (simp add: Invoke_APPCALL_abort)
  have call: "\<forall>code engine'.
          Invoke_APPCALL_target D (Engine this) sc = Inr (code, engine')
          \<and> length (Contexts sc) \<le> 1024 \<longrightarrow>
            Invoke_APPCALL D invoke this sc
              = (case invoke \<lparr>NeoVmService.Notifications = [], NeoVmService.Code = code,
                       NeoVmService.Tx = Tx (Config sc), NeoVmService.Time = Time (Config sc),
                       NeoVmService.Height = Height (Config sc),
                       NeoVmService.BlockHash = BlockHash (Config sc),
                       Engine = NewExecutionEngine\<lparr>EvaluationStack := EvaluationStack engine'\<rparr>,
                       NeoVmService.PreExec = PreExec sc\<rparr> sc of
                   None \<Rightarrow> None
                 | Some (Inl err) \<Rightarrow> Some (Inl err)
                 | Some (Inr (None, sc')) \<Rightarrow> Some (Inr (this\<lparr>Engine := engine'\<rparr>, sc'))
                 | Some (Inr (Some item, sc')) \<Rightarrow>
                     Some (Inr (this\<lparr>Engine := engine'\<lparr>EvaluationStack := item # EvaluationStack engine'\<rparr>\<rparr>, sc')))"
    using Invoke_APPCALL_child [of D this sc _ _ invoke] by blast
  show ?thesis
    by (intro conjI) (fact operand zero unknown known abort call child)+
qed

theorem C6_APPCALL_witness:
  "ReadBytes ex_Deps (Engine ex_appcall_service) 20
     = Inr (ex_address_B, ex_engine [ByteArray [0x61]] ([0x67] @ ex_address_B) 21 APPCALL)
   \<and> ex_address_B \<noteq> BYTE_ZERO_20
   \<and> Invoke_APPCALL_target ex_Deps (Engine ex_appcall_service) ex_tx_in_A
       = Inr (ex_code_B, ex_engine [ByteArray [0x61]] ([0x67] @ ex_address_B) 21 APPCALL)
   \<and> length (Contexts ex_tx_in_A) \<le> 1024
   \<and> Invoke_APPCALL ex_Deps (Invoke ex_Deps 3) ex_appcall_service ex_tx_in_A
       = Some (Inr (ex_appcall_service
                      \<lparr>Engine := ex_engine [ByteArray [0x61], ByteArray [0x61]]
                                   ([0x67] @ ex_address_B) 21 APPCALL\<rparr>,
           ex_tx_in_A
             \<lparr>Notifications :=
                 [\<lparr>NotifyEventInfo.ContractAddress = ex_address_B, States = ByteArray [0x62, 0x31]\<rparr>],
               Gas := 997\<rparr>))
   \<and> GetContract ex_Deps (CacheDB (ex_contract [ex_ctx_A] (Inr []))) ex_address_B = Inr None
   \<and> Invoke_APPCALL ex_Deps (Invoke ex_Deps 3) ex_appcall_service (ex_contract [ex_ctx_A] (Inr []))
       = Some (Inl CONTRACT_NOT_EXIST)
   \<and> ReadBytes ex_Deps (Engine ex_appcall_zero_service) 20
       = Inr (BYTE_ZERO_20,
              ex_engine [ByteArray ex_address_B, ByteArray [0x61]] ([0x67] @ BYTE_ZERO_20) 21 APPCALL)
   \<and> GetByteArray ex_Deps (ByteArray ex_address_B) = Inr ex_address_B
   \<and> length ex_address_B = 20
   \<and> Invoke_APPCALL_target ex_Deps (Engine ex_appcall_zero_service) ex_tx_in_A
       = Inr (ex_code_B, ex_engine [ByteArray [0x61]] ([0x67] @ BYTE_ZERO_20) 21 APPCALL)"
  using C6_APPCALL [OF ex_appcall_read(1), of ex_tx_in_A "Invoke ex_Deps 3" 3]
    C6_APPCALL [OF ex_appcall_read(1), of "ex_contract [ex_ctx_A] (Inr [])" "Invoke ex_Deps 3" 3]
    C6_APPCALL [OF ex_appcall_read(2), of ex_tx_in_A "Invoke ex_Deps 3" 3]
    ex_appcall_read ex_appcall_lookup ex_run_appcall [of 0]
  by (simp add: fuel_numerals(2) ex_engine_def)

section \<open>A nested call at depth 1024\<close>

text \<open>With 1024 contexts on the stack an \<^verbatim>\<open>APPCALL\<close> whose target is found starts the child,
  and the loop of the child's \<^verbatim>\<open>Invoke\<close> runs in a state with 1025 contexts: whether and how
  the \<^verbatim>\<open>APPCALL\<close> returns depends on what that loop does there.\<close>

lemma APPCALL_enters_depth_1025:
  assumes target: "Invoke_APPCALL_target D (Engine this) sc = Inr (code, engine)"
    and code: "code \<noteq> []"
    and depth: "length (Contexts sc) = 1024"
  shows "\<exists>child sc'. length (Contexts sc') = 1025
           \<and> (\<forall>loop. Invoke_APPCALL D (Invoke_frame D loop) this sc = None \<longleftrightarrow> loop child sc' = None)
           \<and> (\<forall>loop err. loop child sc' = Some (Inl err)
                 \<longrightarrow> Invoke_APPCALL D (Invoke_frame D loop) this sc = Some (Inl err))"
proof -
  let ?service = "\<lparr>NeoVmService.Notifications = [], NeoVmService.Code = code,
                   NeoVmService.Tx = Tx (Config sc), NeoVmService.Time = Time (Config sc),
                   NeoVmService.Height = Height (Config sc),
                   NeoVmService.BlockHash = BlockHash (Config sc),
                   Engine = NewExecutionEngine\<lparr>EvaluationStack := EvaluationStack engine\<rparr>,
                   NeoVmService.PreExec = PreExec sc\<rparr>"
  let ?child = "?service\<lparr>Engine := EnginePushContext (NewExecutionContext code) (Engine ?service)\<rparr>"
  let ?sc' = "PushContext \<lparr>ContractAddress = AddressFromVmCode D code, Code = code\<rparr> sc"
  have call: "Invoke_APPCALL D (Invoke_frame D loop) this sc
      = (case Invoke_frame D loop ?service sc of
           None \<Rightarrow> None
         | Some (Inl err) \<Rightarrow> Some (Inl err)
         | Some (Inr (None, sc')) \<Rightarrow> Some (Inr (this\<lparr>Engine := engine\<rparr>, sc'))
         | Some (Inr (Some item, sc')) \<Rightarrow>
             Some (Inr (this\<lparr>Engine := engine\<lparr>EvaluationStack := item # EvaluationStack engine\<rparr>\<rparr>, sc')))"
    for loop
    using Invoke_APPCALL_child [OF target, of "Invoke_frame D loop"] depth by simp
  have frame: "Invoke_frame D loop ?service sc
      = (case loop ?child ?sc' of
           None \<Rightarrow> None
         | Some (Inl err) \<Rightarrow> Some (Inl err)
         | Some (Inr (this2, sc2)) \<Rightarrow>
             (if length (EvaluationStack (Engine this2)) \<noteq> 0
              then Some (Inr (Some (hd (EvaluationStack (Engine this2))),
                              PushNotifications (NeoVmService.Notifications this2) (PopContext sc2)))
              else Some (Inr (None,
                              PushNotifications (NeoVmService.Notifications this2) (PopContext sc2)))))"
    for loop
    using code by (simp add: Invoke_frame_def Let_def split: option.splits sum.splits prod.splits)
  have "length (Contexts ?sc') = 1025"
    using depth by (simp add: PushContext_def)
  moreover have "Invoke_APPCALL D (Invoke_frame D loop) this sc = None \<longleftrightarrow> loop ?child ?sc' = None"
    for loop
    unfolding call frame by (auto split: option.splits sum.splits prod.splits if_splits)
  moreover have "loop ?child ?sc' = Some (Inl err)
      \<Longrightarrow> Invoke_APPCALL D (Invoke_frame D loop) this sc = Some (Inl err)" for loop err
    unfolding call frame by simp
  ultimately show ?thesis by blast
qed

text \<open>Claim C3, evaluated where it fails. The context stack holds 1024 contexts and the
  running contract executes \<^verbatim>\<open>APPCALL\<close> with the address of the deployed contract \<open>B\<close>.
  \<^verbatim>\<open>checkContexts\<close> still answers true (its test is \<open>len > 1024\<close>), \<^verbatim>\<open>NewExecuteEngine\<close> returns
  a service, the \<^verbatim>\<open>PushContext\<close> at the start of its \<^verbatim>\<open>Invoke\<close> makes the depth 1025, and \<open>B\<close>
  runs to its end as the 1025th context: the \<^verbatim>\<open>APPCALL\<close> returns, and the notification that
  \<open>B\<close> emitted is in the transaction's list. Only with 1025 contexts on the stack does the
  same \<^verbatim>\<open>APPCALL\<close> return the error.\<close>

theorem C3_depth_reaches_1025:
  "length (Contexts (ex_tx_deep 1024)) = 1024
   \<and> checkContexts (ex_tx_deep 1024)
   \<and> NewExecuteEngine (ex_tx_deep 1024) ex_code_B = Inr (ex_service ex_code_B)
   \<and> length (Contexts (PushContext \<lparr>ContractAddress = ex_address_B, Code = ex_code_B\<rparr>
                          (ex_tx_deep 1024))) = 1025
   \<and> Invoke_APPCALL ex_Deps (Invoke ex_Deps 3) ex_appcall_service (ex_tx_deep 1024)
       = Some (Inr (ex_appcall_service
                      \<lparr>Engine := ex_engine [ByteArray [0x61], ByteArray [0x61]]
                                   ([0x67] @ ex_address_B) 21 APPCALL\<rparr>,
           (ex_tx_deep 1024)
             \<lparr>Notifications :=
                 [\<lparr>NotifyEventInfo.ContractAddress = ex_address_B, States = ByteArray [0x62, 0x31]\<rparr>],
               Gas := 997\<rparr>))
   \<and> Invoke_APPCALL ex_Deps (Invoke ex_Deps 3) ex_appcall_service (ex_tx_deep 1025)
       = Some (Inl (Errorf ''engine over max limit!''))"
  using ex_run_appcall_deep [of 0]
  by (simp add: fuel_numerals(2) checkContexts_def MAX_EXECUTE_ENGINE_def NewExecuteEngine_def
      ex_tx_deep_def ex_tx_state_def ex_service_def PushContext_def)

section \<open>A push on a full stack\<close>

lemma ex_run_full_stack:
  "Invoke_iteration ex_Deps invoke (ex_full_service PUSH16) ex_tx_in_A
     = Some (Inr (LoopNext
         ((ex_service [PUSH16, PUSH16])
            \<lparr>Engine := (ex_engine (Integer 16 # replicate 2048 (Integer 0)) [PUSH16, PUSH16] 1 PUSH16)
                          \<lparr>OpExecName := ''OP''\<rparr>\<rparr>,
          ex_tx_in_A\<lparr>Gas := 999\<rparr>)))"
  "Invoke_iteration ex_Deps invoke (ex_full_service 0x5F) ex_tx_in_A = Some (Inl ERR_CHECK_STACK_SIZE)"
  by (simp_all add: ex_run_defs ex_full_service_def)

text \<open>Claim C4, evaluated where it fails. The two stacks hold 2048 items, the opcode fetched
  is \<^verbatim>\<open>PUSH16\<close>, a push opcode, and the instruction pointer is still inside the code, so the
  count charged with 1 for the push is 2049. \<^verbatim>\<open>checkStackSize\<close> compares the opcode with
  \<open>< PUSH16\<close>, charges nothing for \<^verbatim>\<open>PUSH16\<close> itself and answers true: the iteration goes on,
  executes the push and leaves 2049 items on the evaluation stack. In the same state the
  opcode before it, \<^verbatim>\<open>PUSH15\<close> (byte 0x5F), is stopped with the stack-size error.\<close>

theorem C4_PUSH16_not_charged:
  "checkStackSize (ex_engine (replicate 2048 (Integer 0)) [PUSH16, PUSH16] 1 PUSH16)
   \<and> 1 + (length (EvaluationStack (ex_engine (replicate 2048 (Integer 0)) [PUSH16, PUSH16] 1 PUSH16))
          + length (AltStack (ex_engine (replicate 2048 (Integer 0)) [PUSH16, PUSH16] 1 PUSH16))) = 2049
   \<and> Invoke_iteration ex_Deps (Invoke ex_Deps 0) (ex_full_service PUSH16) ex_tx_in_A
       = Some (Inr (LoopNext
           ((ex_service [PUSH16, PUSH16])
              \<lparr>Engine := (ex_engine (Integer 16 # replicate 2048 (Integer 0)) [PUSH16, PUSH16] 1 PUSH16)
                            \<lparr>OpExecName := ''OP''\<rparr>\<rparr>,
            ex_tx_in_A\<lparr>Gas := 999\<rparr>)))
   \<and> length (Integer 16 # replicate 2048 (Integer 0)) = 2049
   \<and> Invoke_iteration ex_Deps (Invoke ex_Deps 0) (ex_full_service 0x5F) ex_tx_in_A
       = Some (Inl ERR_CHECK_STACK_SIZE)"
  using ex_run_full_stack [of "Invoke ex_Deps 0"]
  by (simp add: checkStackSize_def ex_engine_def DUPLICATE_STACK_SIZE_def
      PUSH16_def DEPTH_def DUP_def OVER_def TUCK_def UNPACK_def)

end
